theory Spec2Isabelle
  imports Complex_Main "HOL-Library.Word"
begin

unbundle bit_operations_syntax

section \<open>Session state\<close>

text \<open>
  The application keeps three entries in \<^verbatim>\<open>st.session_state\<close>. A key that is absent is
  \<open>None\<close>. \<^verbatim>\<open>task_duration\<close> is assigned Python's \<^verbatim>\<open>None\<close> by the start button, so
  its present-but-None value is \<open>Some None\<close>. Clock readings (\<^verbatim>\<open>time.time()\<close>, a float
  of seconds) are exact rationals here: the rounding of binary floating point is not part
  of the model.
\<close>

record session =
  participant_id :: "string option"
  task_start_time :: "rat option"
  task_duration :: "rat option option"

subsection \<open>Participant identifiers\<close>

text \<open>
  \<^verbatim>\<open>str(uuid.uuid4())\<close> prints the 128 bits of the identifier as 32 lower-case hexadecimal
  digits, most significant first, grouped 8-4-4-4-12 with hyphens. The random value is an
  argument of the model.
\<close>

definition hex_digit :: "nat \<Rightarrow> char" where
  "hex_digit n = ''0123456789abcdef'' ! (n mod 16)"

definition hex32 :: "128 word \<Rightarrow> string" where
  "hex32 w = map (\<lambda>i. hex_digit (unat (drop_bit (4 * i) w AND 15))) (rev [0..<32])"

definition str_uuid :: "128 word \<Rightarrow> string" where
  "str_uuid w =
     (let h = hex32 w
      in take 8 h @ ''-'' @ take 4 (drop 8 h) @ ''-'' @ take 4 (drop 12 h) @ ''-''
           @ take 4 (drop 16 h) @ ''-'' @ drop 20 h)"

text \<open>
  \<^verbatim>\<open>if "participant_id" not in st.session_state or not st.session_state["participant_id"]\<close>:
  a missing key and an empty string both count as no identifier.
\<close>

definition ensure_participant :: "128 word \<Rightarrow> session \<Rightarrow> session" where
  "ensure_participant u s =
     (if participant_id s = None \<or> participant_id s = Some []
      then s\<lparr>participant_id := Some (''P-'' @ take 8 (str_uuid u))\<rparr>
      else s)"

subsection \<open>Messages shown to the user\<close>

text \<open>
  \<^verbatim>\<open>st.success\<close>, \<^verbatim>\<open>st.warning\<close> and \<^verbatim>\<open>st.info\<close> calls, in the order they are made.
  \<open>TimerStopped d\<close> is the success message of the stop button, which prints the duration.
\<close>

datatype msg = Success string | Warning string | Info string | TimerStopped rat

datatype error = KeyError string

subsection \<open>Likert scales\<close>

text \<open>The two dictionaries, in source order (the sliders list their keys in this order).\<close>

definition LIKERT_5 :: "(string \<times> int) list" where
  "LIKERT_5 =
     [(''1 - Strongly Disagree'', 1),
      (''2 - Disagree'', 2),
      (''3 - Neutral'', 3),
      (''4 - Agree'', 4),
      (''5 - Strongly Agree'', 5)]"

definition LIKERT_5_SIMPLE :: "(string \<times> int) list" where
  "LIKERT_5_SIMPLE =
     [(''1 - Very Poor'', 1),
      (''2 - Poor'', 2),
      (''3 - Fair'', 3),
      (''4 - Good'', 4),
      (''5 - Excellent'', 5)]"

text \<open>\<^verbatim>\<open>d[label]\<close>: a label that is not a key raises KeyError.\<close>

definition getitem :: "(string \<times> int) list \<Rightarrow> string \<Rightarrow> error + int" where
  "getitem d label = (case map_of d label of None \<Rightarrow> Inl (KeyError label) | Some v \<Rightarrow> Inr v)"

text \<open>The integer a label starts with: the value of its first character when that is a digit.\<close>

definition leading_int :: "string \<Rightarrow> int option" where
  "leading_int label =
     (case label of
        [] \<Rightarrow> None
      | c # _ \<Rightarrow> if 48 \<le> (of_char c :: nat) \<and> (of_char c :: nat) \<le> 57
                then Some (int (of_char c) - 48) else None)"

subsection \<open>Task timer\<close>

text \<open>
  The start button stores the clock reading and assigns \<^verbatim>\<open>None\<close> to the duration. The stop
  button tests \<^verbatim>\<open>"task_start_time" in st.session_state and st.session_state["task_start_time"]\<close>:
  the second conjunct is the truth value of a float, false exactly for \<open>0\<close>.
\<close>

definition start_timer :: "rat \<Rightarrow> session \<Rightarrow> session \<times> msg list" where
  "start_timer now s =
     (s\<lparr>task_start_time := Some now, task_duration := Some None\<rparr>, [Success ''Timer started.''])"

definition stop_timer :: "rat \<Rightarrow> session \<Rightarrow> session \<times> msg list" where
  "stop_timer now s =
     (case task_start_time s of
        None \<Rightarrow> (s, [Warning ''Timer was not started.''])
      | Some t \<Rightarrow>
          if t \<noteq> 0
          then (let duration = now - t
                in (s\<lparr>task_duration := Some (Some duration)\<rparr>, [TimerStopped duration]))
          else (s, [Warning ''Timer was not started.'']))"

section \<open>Record store\<close>

text \<open>
  One record type per dictionary that a submission builds, with the dictionary's keys
  (prefixed: field names are global). Each CSV file is the list of dictionaries appended
  to it so far; a file that does not exist is \<open>None\<close>.
\<close>

text \<open>
  \<^verbatim>\<open>"duration_seconds": round(duration_val, 3) if duration_val else ""\<close>: the field holds
  either a number or the empty string.
\<close>

datatype duration_field = Seconds rat | EmptyString

record consent_row =
  c_timestamp :: string
  c_participant_id :: string
  c_consent_given :: bool
  c_display_name :: string

record demographic_row =
  d_timestamp :: string
  d_participant_id :: string
  d_name :: string
  d_age :: int
  d_gender :: string
  d_occupation :: string
  d_education :: string
  d_country :: string
  d_familiarity_1to5 :: int

record task_row =
  t_timestamp :: string
  t_participant_id :: string
  t_task_name :: string
  t_success :: string
  t_duration_seconds :: duration_field
  t_errors :: int
  t_perceived_difficulty_1to5 :: int
  t_task_satisfaction_1to5 :: int
  t_notes :: string

record exit_row =
  e_timestamp :: string
  e_participant_id :: string
  e_satisfaction_1to5 :: int
  e_ease_of_use_1to5 :: int
  e_efficiency_1to5 :: int
  e_learnability_1to5 :: int
  e_error_prevention_1to5 :: int
  e_nps_0to10 :: int
  e_likes :: string
  e_dislikes :: string
  e_suggestions :: string

record files =
  CONSENT_CSV :: "consent_row list option"
  DEMOGRAPHIC_CSV :: "demographic_row list option"
  TASK_CSV :: "task_row list option"
  EXIT_CSV :: "exit_row list option"

text \<open>
  \<^verbatim>\<open>save_to_csv\<close>: a new file gets the header and the row, an existing file gets the row
  appended.
\<close>

definition save_to_csv :: "'a \<Rightarrow> 'a list option \<Rightarrow> 'a list option" where
  "save_to_csv data_dict csv_file =
     (case csv_file of None \<Rightarrow> Some [data_dict] | Some rows \<Rightarrow> Some (rows @ [data_dict]))"

subsection \<open>Reading a file back\<close>

text \<open>
  A value in a cell of a data frame: a Python string, a number (int or float), a boolean,
  or the missing value NaN. A data frame is its columns, by name, in order.
\<close>

datatype cell = Str string | Num rat | Bool bool | NaN

type_synonym dataframe = "(string \<times> cell list) list"

text \<open>
  \<^verbatim>\<open>pandas.read_csv\<close> decides the type of each column from its text. With its default
  settings, a field that is one of the strings below is missing; a column whose other
  fields are all numbers is numeric; a column whose other fields are all one of the words
  for true and false is boolean; any other column keeps its fields as strings. Which
  strings are numbers is the library's number grammar, an argument \<open>num\<close> of the model.
\<close>

definition na_values :: "string list" where
  "na_values =
     [[], ''#N/A'', ''#N/A N/A'', ''#NA'', ''-1.#IND'', ''-1.#QNAN'', ''-NaN'', ''-nan'',
      ''1.#IND'', ''1.#QNAN'', ''<NA>'', ''N/A'', ''NA'', ''NULL'', ''NaN'', ''None'',
      ''n/a'', ''nan'', ''null'']"

definition true_values :: "string list" where
  "true_values = [''True'', ''TRUE'', ''true'']"

definition false_values :: "string list" where
  "false_values = [''False'', ''FALSE'', ''false'']"

definition is_na :: "string \<Rightarrow> bool" where
  "is_na t = (t \<in> set na_values)"

definition read_csv_column :: "(string \<Rightarrow> rat option) \<Rightarrow> string list \<Rightarrow> cell list" where
  "read_csv_column num col =
     (if list_all (\<lambda>t. is_na t \<or> num t \<noteq> None) col
      then map (\<lambda>t. if is_na t then NaN else (case num t of Some v \<Rightarrow> Num v | None \<Rightarrow> NaN)) col
      else if list_all (\<lambda>t. is_na t \<or> t \<in> set true_values \<or> t \<in> set false_values) col
      then map (\<lambda>t. if is_na t then NaN else Bool (t \<in> set true_values)) col
      else map (\<lambda>t. if is_na t then NaN else Str t) col)"

definition read_csv :: "(string \<Rightarrow> rat option) \<Rightarrow> (string \<times> string list) list \<Rightarrow> dataframe" where
  "read_csv num table = map (\<lambda>(name, col). (name, read_csv_column num col)) table"

text \<open>
  The text of the consent file, column by column: strings are written as they are (the
  quoting that \<^verbatim>\<open>to_csv\<close> adds around a field is removed again by \<^verbatim>\<open>read_csv\<close>), a
  boolean as \<^verbatim>\<open>True\<close> or \<^verbatim>\<open>False\<close>.
\<close>

definition consent_to_csv :: "consent_row list \<Rightarrow> (string \<times> string list) list" where
  "consent_to_csv rows =
     [(''timestamp'', map c_timestamp rows),
      (''participant_id'', map c_participant_id rows),
      (''consent_given'', map (\<lambda>r. if c_consent_given r then ''True'' else ''False'') rows),
      (''display_name'', map c_display_name rows)]"

text \<open>\<^verbatim>\<open>load_from_csv(CONSENT_CSV)\<close>: the empty data frame when the file does not exist.\<close>

definition load_consent :: "(string \<Rightarrow> rat option) \<Rightarrow> consent_row list option \<Rightarrow> dataframe" where
  "load_consent num csv_file =
     (case csv_file of None \<Rightarrow> [] | Some rows \<Rightarrow> read_csv num (consent_to_csv rows))"

text \<open>\<^verbatim>\<open>df.empty\<close>: no column, or no row. \<^verbatim>\<open>df.get(name, default)\<close>: the column, or the default.\<close>

definition df_empty :: "dataframe \<Rightarrow> bool" where
  "df_empty df = list_all (\<lambda>(name, col). col = []) df"

definition df_get :: "dataframe \<Rightarrow> string \<Rightarrow> cell list \<Rightarrow> cell list" where
  "df_get df name dflt = (case map_of df name of None \<Rightarrow> dflt | Some col \<Rightarrow> col)"

section \<open>Submission validator\<close>

text \<open>
  The three dependent submissions test
  \<^verbatim>\<open>consent_df.empty or pid not in set(consent_df.get("participant_id", []))\<close>;
  \<open>has_consented\<close> is the negation of that test. \<open>pid\<close> is a Python string, so it is
  in the set only when a cell of the column is that string.
\<close>

definition has_consented :: "(string \<Rightarrow> rat option) \<Rightarrow> files \<Rightarrow> string \<Rightarrow> bool" where
  "has_consented num fs pid =
     (let consent_df = load_consent num (CONSENT_CSV fs)
      in \<not> (df_empty consent_df \<or> Str pid \<notin> set (df_get consent_df ''participant_id'' [])))"

definition require_consent_warning :: msg where
  "require_consent_warning =
     Warning ''Please complete and submit consent first. Data will only be recorded after consent is provided.''"

section \<open>Submissions\<close>

text \<open>
  What one run of the script reads from outside: two results of \<^verbatim>\<open>uuid.uuid4()\<close> (for the
  call of \<open>ensure_participant\<close> in the sidebar and the one in a submission branch), the
  string \<^verbatim>\<open>now_iso()\<close> returns, and the clock reading \<^verbatim>\<open>time.time()\<close>.
\<close>

record env =
  uuid4_sidebar :: "128 word"
  uuid4_submit :: "128 word"
  now_iso :: string
  time_time :: rat

record state =
  session_state :: session
  data :: files

subsection \<open>Consent\<close>

text \<open>\<^verbatim>\<open>st.session_state["participant_id"]\<close> raises KeyError for a missing key.\<close>

definition submit_consent :: "env \<Rightarrow> bool \<Rightarrow> string \<Rightarrow> state \<Rightarrow> error + state \<times> msg list" where
  "submit_consent e consent_given consent_name st =
     (if \<not> consent_given
      then Inr (st, [Warning ''You must agree to the consent terms before proceeding.''])
      else
        (let s = ensure_participant (uuid4_submit e) (session_state st)
         in case participant_id s of
              None \<Rightarrow> Inl (KeyError ''participant_id'')
            | Some pid \<Rightarrow>
                (let data_dict =
                       \<lparr>c_timestamp = now_iso e, c_participant_id = pid,
                        c_consent_given = True, c_display_name = consent_name\<rparr>
                 in Inr (st\<lparr>session_state := s,
                            data := (data st)\<lparr>CONSENT_CSV := save_to_csv data_dict (CONSENT_CSV (data st))\<rparr>\<rparr>,
                         [Success ''Consent recorded. You may proceed to the Demographics tab.'']))))"

subsection \<open>Demographics\<close>

record demographic_form =
  f_name :: string
  f_age :: int
  f_gender :: string
  f_gender_self_described :: string
  f_occupation :: string
  f_education :: string
  f_country :: string
  f_familiarity_label :: string

text \<open>
  The label is looked up when the form is drawn, before the submit button is tested.
\<close>

definition submit_demographics ::
  "(string \<Rightarrow> rat option) \<Rightarrow> env \<Rightarrow> demographic_form \<Rightarrow> state \<Rightarrow> error + state \<times> msg list" where
  "submit_demographics num e f st =
     (let gender = (if f_gender f = ''Self-describe'' then f_gender_self_described f else f_gender f)
      in case getitem LIKERT_5_SIMPLE (f_familiarity_label f) of
           Inl err \<Rightarrow> Inl err
         | Inr familiarity \<Rightarrow>
             (let s = ensure_participant (uuid4_submit e) (session_state st)
              in case participant_id s of
                   None \<Rightarrow> Inl (KeyError ''participant_id'')
                 | Some pid \<Rightarrow>
                     if \<not> has_consented num (data st) pid
                     then Inr (st\<lparr>session_state := s\<rparr>, [require_consent_warning])
                     else
                       (let data_dict =
                              \<lparr>d_timestamp = now_iso e, d_participant_id = pid, d_name = f_name f,
                               d_age = f_age f, d_gender = gender, d_occupation = f_occupation f,
                               d_education = f_education f, d_country = f_country f,
                               d_familiarity_1to5 = familiarity\<rparr>
                        in Inr (st\<lparr>session_state := s,
                                   data := (data st)\<lparr>DEMOGRAPHIC_CSV :=
                                     save_to_csv data_dict (DEMOGRAPHIC_CSV (data st))\<rparr>\<rparr>,
                                [Success ''Demographic data saved.'']))))"

subsection \<open>Task results\<close>

record task_form =
  f_selected_task :: string
  f_success :: string
  f_errors :: int
  f_perceived_difficulty_label :: string
  f_satisfaction_label :: string
  f_notes :: string

text \<open>
  Python's \<^verbatim>\<open>round(x, 3)\<close> rounds to the nearest multiple of one thousandth, a tie to the
  even one.
\<close>

definition round_half_even :: "rat \<Rightarrow> int" where
  "round_half_even x =
     (let f = \<lfloor>x\<rfloor>; d = x - of_int f
      in if d < 1 / 2 then f else if 1 / 2 < d then f + 1 else if even f then f else f + 1)"

definition round3 :: "rat \<Rightarrow> rat" where
  "round3 x = of_int (round_half_even (x * 1000)) / 1000"

text \<open>
  \<^verbatim>\<open>duration_val = st.session_state.get("task_duration", None)\<close>, then
  \<^verbatim>\<open>round(duration_val, 3) if duration_val else ""\<close>: the condition is the truth value of
  \<^verbatim>\<open>duration_val\<close>, false for \<^verbatim>\<open>None\<close> and for the float \<open>0\<close>.
\<close>

definition duration_seconds_field :: "session \<Rightarrow> duration_field" where
  "duration_seconds_field s =
     (case task_duration s of
        Some (Some duration_val) \<Rightarrow>
          if duration_val \<noteq> 0 then Seconds (round3 duration_val) else EmptyString
      | _ \<Rightarrow> EmptyString)"

definition submit_task ::
  "(string \<Rightarrow> rat option) \<Rightarrow> env \<Rightarrow> task_form \<Rightarrow> state \<Rightarrow> error + state \<times> msg list" where
  "submit_task num e f st =
     (case getitem LIKERT_5_SIMPLE (f_perceived_difficulty_label f) of
        Inl err \<Rightarrow> Inl err
      | Inr perceived_difficulty \<Rightarrow>
     (case getitem LIKERT_5_SIMPLE (f_satisfaction_label f) of
        Inl err \<Rightarrow> Inl err
      | Inr task_satisfaction \<Rightarrow>
          (let s = ensure_participant (uuid4_submit e) (session_state st)
           in case participant_id s of
                None \<Rightarrow> Inl (KeyError ''participant_id'')
              | Some pid \<Rightarrow>
                  if \<not> has_consented num (data st) pid
                  then Inr (st\<lparr>session_state := s\<rparr>, [require_consent_warning])
                  else
                    (let data_dict =
                           \<lparr>t_timestamp = now_iso e, t_participant_id = pid,
                            t_task_name = f_selected_task f, t_success = f_success f,
                            t_duration_seconds = duration_seconds_field s,
                            t_errors = f_errors f,
                            t_perceived_difficulty_1to5 = perceived_difficulty,
                            t_task_satisfaction_1to5 = task_satisfaction,
                            t_notes = f_notes f\<rparr>
                     in Inr (st\<lparr>session_state := s\<lparr>task_start_time := None, task_duration := None\<rparr>,
                                data := (data st)\<lparr>TASK_CSV := save_to_csv data_dict (TASK_CSV (data st))\<rparr>\<rparr>,
                             [Success ''Task results saved.''])))))"

subsection \<open>Exit questionnaire\<close>

record exit_form =
  f_satisfaction :: string
  f_ease :: string
  f_efficiency :: string
  f_learnability :: string
  f_error_prevention :: string
  f_nps :: int
  f_likes :: string
  f_dislikes :: string
  f_suggestions :: string

text \<open>Here the labels are looked up while the dictionary is built, after the consent test.\<close>

definition submit_exit ::
  "(string \<Rightarrow> rat option) \<Rightarrow> env \<Rightarrow> exit_form \<Rightarrow> state \<Rightarrow> error + state \<times> msg list" where
  "submit_exit num e f st =
     (let s = ensure_participant (uuid4_submit e) (session_state st)
      in case participant_id s of
           None \<Rightarrow> Inl (KeyError ''participant_id'')
         | Some pid \<Rightarrow>
             if \<not> has_consented num (data st) pid
             then Inr (st\<lparr>session_state := s\<rparr>, [require_consent_warning])
             else
               (case getitem LIKERT_5 (f_satisfaction f) of Inl err \<Rightarrow> Inl err | Inr satisfaction \<Rightarrow>
               (case getitem LIKERT_5 (f_ease f) of Inl err \<Rightarrow> Inl err | Inr ease \<Rightarrow>
               (case getitem LIKERT_5 (f_efficiency f) of Inl err \<Rightarrow> Inl err | Inr efficiency \<Rightarrow>
               (case getitem LIKERT_5 (f_learnability f) of Inl err \<Rightarrow> Inl err | Inr learnability \<Rightarrow>
               (case getitem LIKERT_5 (f_error_prevention f) of Inl err \<Rightarrow> Inl err | Inr error_prevention \<Rightarrow>
                  (let data_dict =
                         \<lparr>e_timestamp = now_iso e, e_participant_id = pid,
                          e_satisfaction_1to5 = satisfaction, e_ease_of_use_1to5 = ease,
                          e_efficiency_1to5 = efficiency, e_learnability_1to5 = learnability,
                          e_error_prevention_1to5 = error_prevention, e_nps_0to10 = f_nps f,
                          e_likes = f_likes f, e_dislikes = f_dislikes f,
                          e_suggestions = f_suggestions f\<rparr>
                   in Inr (st\<lparr>session_state := s,
                              data := (data st)\<lparr>EXIT_CSV := save_to_csv data_dict (EXIT_CSV (data st))\<rparr>\<rparr>,
                           [Success ''Exit questionnaire data saved.'']))))))))"

subsection \<open>One run of the script\<close>

text \<open>
  Streamlit runs \<^verbatim>\<open>main()\<close> from the top after every interaction; at most one button is
  pressed in a run. An edit of the participant field is in the session state before the run
  starts. The sidebar calls \<open>ensure_participant\<close> first, then the branch of the pressed
  button runs.
\<close>

datatype event =
    Rerun
  | EditParticipantId string
  | SubmitConsent bool string
  | SubmitDemographics demographic_form
  | StartTaskTimer
  | StopTaskTimer
  | SaveTaskResults task_form
  | SubmitExit exit_form

definition on_session :: "(session \<Rightarrow> session \<times> msg list) \<Rightarrow> state \<Rightarrow> state \<times> msg list" where
  "on_session h st = (let (s, out) = h (session_state st) in (st\<lparr>session_state := s\<rparr>, out))"

definition main ::
  "(string \<Rightarrow> rat option) \<Rightarrow> env \<Rightarrow> event \<Rightarrow> state \<Rightarrow> error + state \<times> msg list" where
  "main num e ev st =
     (let st0 = (case ev of
                   EditParticipantId p \<Rightarrow> st\<lparr>session_state := (session_state st)\<lparr>participant_id := Some p\<rparr>\<rparr>
                 | _ \<Rightarrow> st);
          st1 = st0\<lparr>session_state := ensure_participant (uuid4_sidebar e) (session_state st0)\<rparr>
      in case ev of
           Rerun \<Rightarrow> Inr (st1, [])
         | EditParticipantId p \<Rightarrow> Inr (st1, [])
         | SubmitConsent consent_given consent_name \<Rightarrow>
             submit_consent e consent_given consent_name st1
         | SubmitDemographics f \<Rightarrow> submit_demographics num e f st1
         | StartTaskTimer \<Rightarrow> Inr (on_session (start_timer (time_time e)) st1)
         | StopTaskTimer \<Rightarrow> Inr (on_session (stop_timer (time_time e)) st1)
         | SaveTaskResults f \<Rightarrow> submit_task num e f st1
         | SubmitExit f \<Rightarrow> submit_exit num e f st1)"

text \<open>
  A sequence of runs. The sliders and select boxes only return listed options, so a
  KeyError does not arise in the running application; the sequence stops at one.
\<close>

fun run :: "(string \<Rightarrow> rat option) \<Rightarrow> (env \<times> event) list \<Rightarrow> state \<Rightarrow> error + state" where
  "run num [] st = Inr st"
| "run num ((e, ev) # rest) st =
     (case main num e ev st of Inl err \<Rightarrow> Inl err | Inr (st', out) \<Rightarrow> run num rest st')"

section \<open>Report aggregator\<close>

text \<open>
  The task section of the report works on the data frame \<^verbatim>\<open>task_df\<close> read from the task
  file. A series of floats is a list of optional numbers, \<open>None\<close> for NaN; an indexed
  series, as \<^verbatim>\<open>groupby(...).mean()\<close> returns it, pairs each label with its value.
\<close>

type_synonym series = "(cell \<times> rat option) list"

text \<open>\<^verbatim>\<open>df[name]\<close>: KeyError when the frame has no such column.\<close>

definition df_column :: "dataframe \<Rightarrow> string \<Rightarrow> error + cell list" where
  "df_column df name = (case map_of df name of None \<Rightarrow> Inl (KeyError name) | Some col \<Rightarrow> Inr col)"

text \<open>\<^verbatim>\<open>df[mask]\<close>: the rows at which the boolean mask is true, in every column.\<close>

definition filter_mask :: "bool list \<Rightarrow> 'a list \<Rightarrow> 'a list" where
  "filter_mask keep col = map snd (filter fst (zip keep col))"

definition df_filter :: "bool list \<Rightarrow> dataframe \<Rightarrow> dataframe" where
  "df_filter keep df = map (\<lambda>(name, col). (name, filter_mask keep col)) df"

subsection \<open>Grouping\<close>

text \<open>
  \<^verbatim>\<open>groupby\<close> drops the rows whose key is NaN and lists the groups in the order of their
  keys: numbers (booleans count as 0 and 1) before strings, strings by code point.
\<close>

fun str_le :: "string \<Rightarrow> string \<Rightarrow> bool" where
  "str_le [] ys = True"
| "str_le (x # xs) [] = False"
| "str_le (x # xs) (y # ys) =
     ((of_char x :: nat) < of_char y \<or> (x = y \<and> str_le xs ys))"

definition key_rank :: "cell \<Rightarrow> nat" where
  "key_rank c = (case c of Num v \<Rightarrow> 0 | Bool b \<Rightarrow> 0 | Str s \<Rightarrow> 1 | NaN \<Rightarrow> 2)"

definition key_num :: "cell \<Rightarrow> rat" where
  "key_num c = (case c of Num v \<Rightarrow> v | Bool b \<Rightarrow> (if b then 1 else 0) | _ \<Rightarrow> 0)"

definition key_le :: "cell \<Rightarrow> cell \<Rightarrow> bool" where
  "key_le a b =
     (if key_rank a \<noteq> key_rank b then key_rank a < key_rank b
      else case (a, b) of
             (Str x, Str y) \<Rightarrow> str_le x y
           | _ \<Rightarrow> key_num a \<le> key_num b)"

fun insort_by :: "('a \<Rightarrow> 'a \<Rightarrow> bool) \<Rightarrow> 'a \<Rightarrow> 'a list \<Rightarrow> 'a list" where
  "insort_by le x [] = [x]"
| "insort_by le x (y # ys) = (if le x y then x # y # ys else y # insort_by le x ys)"

definition sort_by :: "('a \<Rightarrow> 'a \<Rightarrow> bool) \<Rightarrow> 'a list \<Rightarrow> 'a list" where
  "sort_by le xs = foldr (insort_by le) xs []"

definition group_keys :: "cell list \<Rightarrow> cell list" where
  "group_keys keys = sort_by key_le (remdups (filter (\<lambda>k. k \<noteq> NaN) keys))"

text \<open>The values of the rows whose key is \<open>k\<close>, in row order.\<close>

definition group_values :: "cell \<Rightarrow> cell list \<Rightarrow> 'a list \<Rightarrow> 'a list" where
  "group_values k keys vals = map snd (filter (\<lambda>(k', v). k' = k) (zip keys vals))"

text \<open>\<^verbatim>\<open>mean()\<close> of a group skips NaN; a group with no number has the mean NaN.\<close>

definition mean :: "rat list \<Rightarrow> rat" where
  "mean xs = sum_list xs / of_nat (length xs)"

definition numbers :: "rat option list \<Rightarrow> rat list" where
  "numbers xs = concat (map (\<lambda>x. case x of None \<Rightarrow> [] | Some v \<Rightarrow> [v]) xs)"

definition nanmean :: "rat option list \<Rightarrow> rat option" where
  "nanmean xs = (if numbers xs = [] then None else Some (mean (numbers xs)))"

definition groupby_mean :: "cell list \<Rightarrow> rat option list \<Rightarrow> series" where
  "groupby_mean keys vals = map (\<lambda>k. (k, nanmean (group_values k keys vals))) (group_keys keys)"

definition dropna :: "series \<Rightarrow> series" where
  "dropna s = filter (\<lambda>(k, v). v \<noteq> None) s"

text \<open>
  \<^verbatim>\<open>sort_values(ascending=False)\<close>: the numbers in descending order, NaN last. The
  library's default sort is not stable: the order in which it leaves entries of equal value
  is not fixed by the call. That order is an argument \<open>tie\<close> of the model, a ranking of
  the labels by which equal values are arranged; the labels of a grouped series are
  distinct, so every arrangement of a tie is the one of some ranking
  (\<open>sort_values_any_arrangement\<close> below).
\<close>

definition value_ge :: "(cell \<Rightarrow> nat) \<Rightarrow> cell \<times> rat option \<Rightarrow> cell \<times> rat option \<Rightarrow> bool" where
  "value_ge tie a b =
     (case (snd a, snd b) of
        (Some x, Some y) \<Rightarrow> y < x \<or> (x = y \<and> tie (fst a) \<le> tie (fst b))
      | (Some x, None) \<Rightarrow> True
      | (None, Some y) \<Rightarrow> False
      | (None, None) \<Rightarrow> tie (fst a) \<le> tie (fst b))"

definition sort_values_descending :: "(cell \<Rightarrow> nat) \<Rightarrow> series \<Rightarrow> series" where
  "sort_values_descending tie s = sort_by (value_ge tie) s"

text \<open>
  The ranking that reads the order of the labels off a given arrangement: the position of
  the label in it.
\<close>

fun position_of :: "series \<Rightarrow> cell \<Rightarrow> nat" where
  "position_of [] k = 0"
| "position_of (p # ps) k = (if fst p = k then 0 else Suc (position_of ps k))"

subsection \<open>Success rate by task\<close>

definition success_map :: "(string \<times> rat) list" where
  "success_map = [(''Success'', 1), (''Partial'', 1 / 2), (''Fail'', 0), (''Abandoned'', 0)]"

text \<open>
  \<^verbatim>\<open>Series.map(success_map)\<close> gives NaN for a value that is not a key of the dictionary
  (the keys are strings); \<^verbatim>\<open>fillna(0.0)\<close> replaces NaN.
\<close>

definition map_success :: "cell \<Rightarrow> rat option" where
  "map_success c = (case c of Str s \<Rightarrow> map_of success_map s | _ \<Rightarrow> None)"

definition fillna :: "rat \<Rightarrow> rat option \<Rightarrow> rat option" where
  "fillna d x = (case x of None \<Rightarrow> Some d | Some v \<Rightarrow> Some v)"

definition success_by_task :: "(cell \<Rightarrow> nat) \<Rightarrow> dataframe \<Rightarrow> error + series" where
  "success_by_task tie task_df =
     (case df_column task_df ''success'' of
        Inl err \<Rightarrow> Inl err
      | Inr success \<Rightarrow>
          (let success_score = map (\<lambda>c. fillna 0 (map_success c)) success
           in case df_column task_df ''task_name'' of
                Inl err \<Rightarrow> Inl err
              | Inr task_name \<Rightarrow>
                  Inr (sort_values_descending tie (groupby_mean task_name success_score))))"

subsection \<open>Average duration by task\<close>

text \<open>
  The row filter
  \<^verbatim>\<open>isinstance(x, (int, float)) or (isinstance(x, str) and x.strip() != "")\<close>: NaN is a
  float and a boolean is an int. \<^verbatim>\<open>strip\<close> removes white space at both ends; the
  characters below are the white space among the first 128 code points.
\<close>

definition is_space :: "char \<Rightarrow> bool" where
  "is_space c = ((of_char c :: nat) \<in> {9, 10, 11, 12, 13, 28, 29, 30, 31, 32})"

definition strip :: "string \<Rightarrow> string" where
  "strip s = rev (dropWhile is_space (rev (dropWhile is_space s)))"

definition keep_duration :: "cell \<Rightarrow> bool" where
  "keep_duration x = (case x of Str s \<Rightarrow> strip s \<noteq> [] | _ \<Rightarrow> True)"

text \<open>
  \<^verbatim>\<open>pd.to_numeric(..., errors="coerce")\<close>: a number stays, a boolean becomes 1 or 0, a
  string becomes the number it spells in the library's number grammar \<open>num\<close>, or NaN.
\<close>

definition to_numeric :: "(string \<Rightarrow> rat option) \<Rightarrow> cell \<Rightarrow> rat option" where
  "to_numeric num x =
     (case x of
        Num v \<Rightarrow> Some v
      | Bool b \<Rightarrow> Some (if b then 1 else 0)
      | NaN \<Rightarrow> None
      | Str s \<Rightarrow> num s)"

definition avg_dur :: "(string \<Rightarrow> rat option) \<Rightarrow> dataframe \<Rightarrow> error + series" where
  "avg_dur num task_df =
     (case df_column task_df ''duration_seconds'' of
        Inl err \<Rightarrow> Inl err
      | Inr duration_seconds \<Rightarrow>
          (let dur = df_filter (map keep_duration duration_seconds) task_df
           in case df_column dur ''duration_seconds'' of
                Inl err \<Rightarrow> Inl err
              | Inr kept \<Rightarrow>
                  (let numeric = map (to_numeric num) kept
                   in case df_column dur ''task_name'' of
                        Inl err \<Rightarrow> Inl err
                      | Inr task_name \<Rightarrow> Inr (dropna (groupby_mean task_name numeric)))))"

subsection \<open>The task section\<close>

datatype display = Text msg | BarChart series

definition report_tasks ::
  "(cell \<Rightarrow> nat) \<Rightarrow> (string \<Rightarrow> rat option) \<Rightarrow> dataframe \<Rightarrow> error + display list" where
  "report_tasks tie num task_df =
     (if df_empty task_df then Inr [Text (Info ''No task data available yet.'')]
      else case success_by_task tie task_df of
             Inl err \<Rightarrow> Inl err
           | Inr s \<Rightarrow>
               if ''duration_seconds'' \<in> set (map fst task_df)
               then (case avg_dur num task_df of
                       Inl err \<Rightarrow> Inl err
                     | Inr a \<Rightarrow>
                         Inr [BarChart s,
                              if a \<noteq> [] then BarChart a
                              else Text (Info ''No duration data to aggregate yet.'')])
               else Inr [BarChart s, Text (Info ''No duration data to aggregate yet.'')])"

section \<open>A number grammar for examples\<close>

text \<open>
  Plain decimal literals: an optional sign, digits, and an optional fraction. The number
  grammars of \<^verbatim>\<open>read_csv\<close> and \<^verbatim>\<open>to_numeric\<close> accept these and more (exponents, surrounding
  blanks, the words for infinity). The general theorems hold for every grammar \<open>num\<close>;
  this one is used only to evaluate the model on concrete files.
\<close>

definition is_digit :: "char \<Rightarrow> bool" where
  "is_digit c = (48 \<le> (of_char c :: nat) \<and> (of_char c :: nat) \<le> 57)"

definition digits_value :: "string \<Rightarrow> nat" where
  "digits_value ds = foldl (\<lambda>a c. 10 * a + (of_char c - 48)) 0 ds"

definition unsigned_decimal :: "string \<Rightarrow> rat option" where
  "unsigned_decimal s =
     (let ip = takeWhile is_digit s; rest = dropWhile is_digit s
      in case rest of
           [] \<Rightarrow> if ip = [] then None else Some (of_nat (digits_value ip))
         | c # fp \<Rightarrow>
             if c = CHR ''.'' \<and> list_all is_digit fp \<and> (ip \<noteq> [] \<or> fp \<noteq> [])
             then Some (of_nat (digits_value ip) + of_nat (digits_value fp) / 10 ^ length fp)
             else None)"

definition decimal_literal :: "string \<Rightarrow> rat option" where
  "decimal_literal s =
     (case s of
        [] \<Rightarrow> None
      | c # r \<Rightarrow>
          if c = CHR ''-'' then map_option uminus (unsigned_decimal r)
          else if c = CHR ''+'' then unsigned_decimal r
          else unsigned_decimal s)"

section \<open>Example data\<close>

text \<open>Concrete states, forms and frames at which the theorems below are instantiated.\<close>

definition example_env :: env where
  "example_env =
     \<lparr>uuid4_sidebar = 0, uuid4_submit = 1, now_iso = ''2024-05-01 10:00:00'', time_time = 1714557600\<rparr>"

definition example_session :: session where
  "example_session =
     \<lparr>participant_id = Some ''P-1a2b3c4d'', task_start_time = None, task_duration = None\<rparr>"

definition example_consent_row :: consent_row where
  "example_consent_row =
     \<lparr>c_timestamp = ''2024-05-01 09:00:00'', c_participant_id = ''P-0000aaaa'',
      c_consent_given = True, c_display_name = ''Ann''\<rparr>"

definition no_files :: files where
  "no_files = \<lparr>CONSENT_CSV = None, DEMOGRAPHIC_CSV = None, TASK_CSV = None, EXIT_CSV = None\<rparr>"

text \<open>Another participant has consented; the participant of the session has not.\<close>

definition example_state :: state where
  "example_state =
     \<lparr>session_state = example_session,
      data = no_files\<lparr>CONSENT_CSV := Some [example_consent_row]\<rparr>\<rparr>"

definition example_demographic_form :: demographic_form where
  "example_demographic_form =
     \<lparr>f_name = ''Bo'', f_age = 25, f_gender = ''Prefer not to say'', f_gender_self_described = [],
      f_occupation = ''Student'', f_education = ''Bachelor'', f_country = [],
      f_familiarity_label = ''3 - Fair''\<rparr>"

definition example_task_form :: task_form where
  "example_task_form =
     \<lparr>f_selected_task = ''Task 1: Find an item'', f_success = ''Success'', f_errors = 0,
      f_perceived_difficulty_label = ''3 - Fair'', f_satisfaction_label = ''4 - Good'',
      f_notes = []\<rparr>"

definition example_exit_form :: exit_form where
  "example_exit_form =
     \<lparr>f_satisfaction = ''4 - Agree'', f_ease = ''4 - Agree'', f_efficiency = ''4 - Agree'',
      f_learnability = ''4 - Agree'', f_error_prevention = ''3 - Neutral'', f_nps = 7,
      f_likes = [], f_dislikes = [], f_suggestions = []\<rparr>"

text \<open>The participant of the session has consented.\<close>

definition consented_state :: state where
  "consented_state =
     \<lparr>session_state = example_session,
      data = no_files\<lparr>CONSENT_CSV := Some
        [\<lparr>c_timestamp = ''2024-05-01 09:30:00'', c_participant_id = ''P-1a2b3c4d'',
          c_consent_given = True, c_display_name = ''Bo''\<rparr>]\<rparr>\<rparr>"

text \<open>The same, after one start and stop of the timer that measured 12.3456 seconds.\<close>

definition measured_state :: state where
  "measured_state =
     consented_state\<lparr>session_state :=
       example_session\<lparr>task_start_time := Some 1714557000, task_duration := Some (Some (123456 / 10000))\<rparr>\<rparr>"

text \<open>The row that \<open>example_task_form\<close> makes, with a given duration field.\<close>

definition example_task_row :: "duration_field \<Rightarrow> task_row" where
  "example_task_row d =
     \<lparr>t_timestamp = ''2024-05-01 10:00:00'', t_participant_id = ''P-1a2b3c4d'',
      t_task_name = ''Task 1: Find an item'', t_success = ''Success'',
      t_duration_seconds = d, t_errors = 0, t_perceived_difficulty_1to5 = 3,
      t_task_satisfaction_1to5 = 4, t_notes = []\<rparr>"

text \<open>The session of a participant who typed the identifier \<^verbatim>\<open>123\<close> into the sidebar.\<close>

definition numeric_id_state :: state where
  "numeric_id_state =
     \<lparr>session_state = \<lparr>participant_id = Some ''123'', task_start_time = None, task_duration = None\<rparr>,
      data = no_files\<rparr>"

text \<open>The two frames of the specification's examples.\<close>

definition success_example :: dataframe where
  "success_example =
     [(''task_name'', [Str ''T1'', Str ''T1'', Str ''T2'']),
      (''success'', [Str ''Success'', Str ''Fail'', Str ''Partial''])]"

definition duration_example :: dataframe where
  "duration_example =
     [(''task_name'', [Str ''T1'', Str ''T1'', Str ''T1'']),
      (''duration_seconds'', [Str ''2.0'', Str [], Str ''4.0''])]"

text \<open>
  Six task rows with three tasks, an outcome that is not in the list and a missing one; the
  mean over all rows differs from the mean of each task.
\<close>

definition success_example_2 :: dataframe where
  "success_example_2 =
     [(''task_name'', [Str ''T1'', Str ''T2'', Str ''T3'', Str ''T3'', Str ''T2'', Str ''T1'']),
      (''success'', [Str ''Fail'', Str ''Success'', Str ''Partial'', Str ''Abandoned'',
                     Str ''Success'', NaN])]"

text \<open>
  Seven task rows: task T1 with 2.0, an empty marker and 4.0; task T2 with 10, a string that
  is no number and a measured zero; task T3 with a blank marker only.
\<close>

definition duration_example_2 :: dataframe where
  "duration_example_2 =
     [(''task_name'', [Str ''T1'', Str ''T2'', Str ''T1'', Str ''T3'', Str ''T1'', Str ''T2'', Str ''T2'']),
      (''duration_seconds'', [Str ''2.0'', Str ''10'', Str [], Str ''  '', Str ''4.0'',
                              Str ''abc'', Num 0])]"

section \<open>Notions used in the statements\<close>

text \<open>The rows of a file, none when the file does not exist.\<close>

definition rows_of :: "'a list option \<Rightarrow> 'a list" where
  "rows_of csv_file = (case csv_file of None \<Rightarrow> [] | Some rows \<Rightarrow> rows)"

text \<open>The participant identifiers written to the consent file, one per row.\<close>

definition consent_pids :: "files \<Rightarrow> string list" where
  "consent_pids fs = map c_participant_id (rows_of (CONSENT_CSV fs))"

text \<open>The session holds no measured duration: the key is absent or its value is None.\<close>

definition no_measurement :: "session \<Rightarrow> bool" where
  "no_measurement s = (task_duration s = None \<or> task_duration s = Some None)"

definition is_stop :: "event \<Rightarrow> bool" where
  "is_stop ev = (case ev of StopTaskTimer \<Rightarrow> True | _ \<Rightarrow> False)"

text \<open>
  The success score in the words of the specification: Success 1.0, Partial 0.5, Fail 0.0,
  Abandoned 0.0, and 0.0 for any other or missing outcome.
\<close>

definition spec_success_score :: "cell \<Rightarrow> rat" where
  "spec_success_score c =
     (if c = Str ''Success'' then 1
      else if c = Str ''Partial'' then 1 / 2
      else if c = Str ''Fail'' then 0
      else if c = Str ''Abandoned'' then 0
      else 0)"

text \<open>
  The number a \<^verbatim>\<open>duration_seconds\<close> value parses to, in the words of the specification:
  none for the empty or blank marker, for the missing value and for a string that is not a
  number. A string is blank when it has white space only.
\<close>

definition spec_blank :: "string \<Rightarrow> bool" where
  "spec_blank s = list_all (\<lambda>c. (of_char c :: nat) \<in> {9, 10, 11, 12, 13, 28, 29, 30, 31, 32}) s"

definition spec_duration_number :: "(string \<Rightarrow> rat option) \<Rightarrow> cell \<Rightarrow> rat option" where
  "spec_duration_number num x =
     (case x of
        Str s \<Rightarrow> if spec_blank s then None else num s
      | Num v \<Rightarrow> Some v
      | Bool b \<Rightarrow> Some (if b then 1 else 0)
      | NaN \<Rightarrow> None)"

text \<open>The session holds a start time that the stop button accepts, or none.\<close>

definition start_time_ok :: "session \<Rightarrow> bool" where
  "start_time_ok s = (case task_start_time s of None \<Rightarrow> True | Some t \<Rightarrow> 0 < t)"

section \<open>Properties of the session state\<close>

lemma length_hex32: "length (hex32 w) = 32"
  by (simp add: hex32_def)

lemma hex_digit_in: "hex_digit n \<in> set ''0123456789abcdef''"
proof -
  have "n mod 16 < length ''0123456789abcdef''" by simp
  then show ?thesis unfolding hex_digit_def by (rule nth_mem)
qed

lemma set_hex32: "set (hex32 w) \<subseteq> set ''0123456789abcdef''"
  unfolding hex32_def using hex_digit_in by (auto simp del: set_simps)

lemma take8_str_uuid: "take 8 (str_uuid w) = take 8 (hex32 w)"
  by (simp add: str_uuid_def Let_def length_hex32)

lemma token_length: "length (take 8 (str_uuid w)) = 8"
  by (simp add: take8_str_uuid length_hex32)

lemma token_hex: "set (take 8 (str_uuid w)) \<subseteq> set ''0123456789abcdef''"
  unfolding take8_str_uuid using set_hex32 [of w] set_take_subset [of 8 "hex32 w"]
  by (rule_tac subset_trans)

text \<open>
  C6. \<open>ensure_participant\<close> generates an identifier only when none is set (key absent or
  empty string): the identifier is \<open>P-\<close> followed by a token of 8 hexadecimal characters.
  An identifier that is set is never overwritten, and a second call returns the state
  of the first call unchanged, whatever fresh random value it is given.
\<close>

theorem ensure_participant_idempotent:
  "(participant_id s = None \<or> participant_id s = Some [] \<longrightarrow>
      (\<exists>tok. participant_id (ensure_participant u s) = Some (''P-'' @ tok)
         \<and> length tok = 8 \<and> set tok \<subseteq> set ''0123456789abcdef''))
   \<and> (\<forall>p. participant_id s = Some p \<and> p \<noteq> [] \<longrightarrow> ensure_participant u s = s)
   \<and> ensure_participant u' (ensure_participant u s) = ensure_participant u s
   \<and> participant_id (ensure_participant u' (ensure_participant u s))
       = participant_id (ensure_participant u s)"
proof -
  have gen: "participant_id s = None \<or> participant_id s = Some [] \<longrightarrow>
      (\<exists>tok. participant_id (ensure_participant u s) = Some (''P-'' @ tok)
         \<and> length tok = 8 \<and> set tok \<subseteq> set ''0123456789abcdef'')"
  proof
    assume a: "participant_id s = None \<or> participant_id s = Some []"
    then have "participant_id (ensure_participant u s) = Some (''P-'' @ take 8 (str_uuid u))"
      by (auto simp: ensure_participant_def)
    with token_length [of u] token_hex [of u] show "\<exists>tok. participant_id (ensure_participant u s) = Some (''P-'' @ tok)
         \<and> length tok = 8 \<and> set tok \<subseteq> set ''0123456789abcdef''"
      by blast
  qed
  have keep: "\<forall>p. participant_id s = Some p \<and> p \<noteq> [] \<longrightarrow> ensure_participant u s = s"
    by (auto simp: ensure_participant_def)
  have idem: "ensure_participant u' (ensure_participant u s) = ensure_participant u s"
    by (auto simp: ensure_participant_def)
  from gen keep idem show ?thesis by simp
qed

theorem ensure_participant_idempotent_witness:
  "participant_id (ensure_participant 0 \<lparr>participant_id = None, task_start_time = None,
       task_duration = None\<rparr>) = Some ''P-00000000''
   \<and> ensure_participant 7 \<lparr>participant_id = Some ''P-1a2b3c4d'', task_start_time = None,
       task_duration = None\<rparr>
     = \<lparr>participant_id = Some ''P-1a2b3c4d'', task_start_time = None, task_duration = None\<rparr>"
  using ensure_participant_idempotent
    [of "\<lparr>participant_id = Some ''P-1a2b3c4d'', task_start_time = None, task_duration = None\<rparr>" 7 7]
  by (simp add: ensure_participant_def take8_str_uuid hex32_def hex_digit_def upt_rec [of 0] upt_rec [of "Suc _"])

subsection \<open>Likert scales\<close>

lemma getitem_iff:
  assumes "distinct (map fst d)"
  shows "getitem d l = Inr v \<longleftrightarrow> (l, v) \<in> set d"
proof -
  have "getitem d l = Inr v \<longleftrightarrow> map_of d l = Some v"
    by (simp add: getitem_def split: option.splits)
  with map_of_eq_Some_iff [OF assms] show ?thesis by simp
qed

lemma ex1_LIKERT_5:
  "v \<in> {1..5} \<Longrightarrow> \<exists>!label. getitem LIKERT_5 label = Inr v"
proof -
  assume "v \<in> {1..5}"
  then have v: "v = 1 \<or> v = 2 \<or> v = 3 \<or> v = 4 \<or> v = 5" by auto
  have d: "distinct (map fst LIKERT_5)" by (simp add: LIKERT_5_def)
  have "\<exists>!label. (label, v) \<in> set LIKERT_5"
    using v by (elim disjE) (simp_all add: LIKERT_5_def)
  then show ?thesis by (simp add: getitem_iff [OF d])
qed

lemma ex1_LIKERT_5_SIMPLE:
  "v \<in> {1..5} \<Longrightarrow> \<exists>!label. getitem LIKERT_5_SIMPLE label = Inr v"
proof -
  assume "v \<in> {1..5}"
  then have v: "v = 1 \<or> v = 2 \<or> v = 3 \<or> v = 4 \<or> v = 5" by auto
  have d: "distinct (map fst LIKERT_5_SIMPLE)" by (simp add: LIKERT_5_SIMPLE_def)
  have "\<exists>!label. (label, v) \<in> set LIKERT_5_SIMPLE"
    using v by (elim disjE) (simp_all add: LIKERT_5_SIMPLE_def)
  then show ?thesis by (simp add: getitem_iff [OF d])
qed

lemma labels_LIKERT_5:
  "length LIKERT_5 = 5 \<and> distinct (map fst LIKERT_5)
     \<and> (\<forall>label \<in> set (map fst LIKERT_5). \<exists>v \<in> {1..5}. getitem LIKERT_5 label = Inr v \<and> leading_int label = Some v)"
  by (simp add: LIKERT_5_def getitem_def leading_int_def)

lemma labels_LIKERT_5_SIMPLE:
  "length LIKERT_5_SIMPLE = 5 \<and> distinct (map fst LIKERT_5_SIMPLE)
     \<and> (\<forall>label \<in> set (map fst LIKERT_5_SIMPLE). \<exists>v \<in> {1..5}. getitem LIKERT_5_SIMPLE label = Inr v \<and> leading_int label = Some v)"
  by (simp add: LIKERT_5_SIMPLE_def getitem_def leading_int_def)

text \<open>
  C7. Each of the two Likert dictionaries has five distinct labels, every label is mapped
  to the integer it starts with, a value between 1 and 5, and every integer between 1 and
  5 is the value of exactly one label of the dictionary.
\<close>

theorem likert_bijective:
  "\<forall>d \<in> {LIKERT_5, LIKERT_5_SIMPLE}.
      length d = 5 \<and> distinct (map fst d)
    \<and> (\<forall>label \<in> set (map fst d). \<exists>v \<in> {1..5}. getitem d label = Inr v \<and> leading_int label = Some v)
    \<and> (\<forall>v \<in> {1..5}. \<exists>!label. getitem d label = Inr v)"
  using labels_LIKERT_5 labels_LIKERT_5_SIMPLE ex1_LIKERT_5 ex1_LIKERT_5_SIMPLE
  by blast

theorem likert_bijective_witness:
  "getitem LIKERT_5 ''4 - Agree'' = Inr 4 \<and> leading_int ''4 - Agree'' = Some 4
   \<and> (\<exists>!label. getitem LIKERT_5_SIMPLE label = Inr 3)
   \<and> getitem LIKERT_5_SIMPLE ''3 - Fair'' = Inr 3"
proof -
  have "\<exists>!label. getitem LIKERT_5_SIMPLE label = Inr 3"
    using likert_bijective by simp
  then show ?thesis
    by (simp add: getitem_def LIKERT_5_def LIKERT_5_SIMPLE_def leading_int_def)
qed

section \<open>Properties of the submissions\<close>

subsection \<open>The consent gate\<close>

lemma ensure_participant_nonempty:
  "participant_id (ensure_participant u s) = Some p \<Longrightarrow> p \<noteq> []"
  by (auto simp: ensure_participant_def split: if_splits)

lemma ensure_participant_noop:
  "participant_id s = Some p \<Longrightarrow> p \<noteq> [] \<Longrightarrow> ensure_participant u s = s"
  by (simp add: ensure_participant_def)

lemma ensure_participant_twice:
  "ensure_participant u' (ensure_participant u s) = ensure_participant u s"
  by (auto simp: ensure_participant_def)

lemma ensure_participant_timer:
  "task_duration (ensure_participant u s) = task_duration s"
  "task_start_time (ensure_participant u s) = task_start_time s"
  by (simp_all add: ensure_participant_def)

lemma Str_in_read_csv_column: "Str p \<in> set (read_csv_column num col) \<Longrightarrow> p \<in> set col"
  by (auto simp: read_csv_column_def split: if_splits option.splits)

lemma participant_column:
  "df_get (load_consent num (Some rows)) ''participant_id'' []
     = read_csv_column num (map c_participant_id rows)"
  by (simp add: load_consent_def read_csv_def consent_to_csv_def df_get_def)

lemma has_consented_stored: "has_consented num fs pid \<Longrightarrow> pid \<in> set (consent_pids fs)"
proof (cases "CONSENT_CSV fs")
  case None
  then show "has_consented num fs pid \<Longrightarrow> pid \<in> set (consent_pids fs)"
    by (simp add: has_consented_def load_consent_def df_empty_def)
next
  case (Some rows)
  assume "has_consented num fs pid"
  with Some have "Str pid \<in> set (read_csv_column num (map c_participant_id rows))"
    by (simp add: has_consented_def Let_def participant_column)
  then have "pid \<in> set (map c_participant_id rows)" by (rule Str_in_read_csv_column)
  with Some show "pid \<in> set (consent_pids fs)" by (simp add: consent_pids_def rows_of_def)
qed

lemma getitem_key: "label \<in> fst ` set d \<Longrightarrow> \<exists>v. getitem d label = Inr v"
  by (cases "map_of d label") (auto simp: getitem_def map_of_eq_None_iff)

lemma submit_demographics_rejected:
  assumes "participant_id (session_state st) = Some pid" "pid \<noteq> []"
      and "\<not> has_consented num (data st) pid"
      and "f_familiarity_label f \<in> fst ` set LIKERT_5_SIMPLE"
  shows "submit_demographics num e f st = Inr (st, [require_consent_warning])"
proof -
  from getitem_key [OF assms(4)] obtain v where "getitem LIKERT_5_SIMPLE (f_familiarity_label f) = Inr v" ..
  with assms(1-3) show ?thesis
    by (simp add: submit_demographics_def Let_def ensure_participant_noop)
qed

lemma submit_task_rejected:
  assumes "participant_id (session_state st) = Some pid" "pid \<noteq> []"
      and "\<not> has_consented num (data st) pid"
      and "f_perceived_difficulty_label f \<in> fst ` set LIKERT_5_SIMPLE"
      and "f_satisfaction_label f \<in> fst ` set LIKERT_5_SIMPLE"
  shows "submit_task num e f st = Inr (st, [require_consent_warning])"
proof -
  from getitem_key [OF assms(4)] obtain v where "getitem LIKERT_5_SIMPLE (f_perceived_difficulty_label f) = Inr v" ..
  moreover from getitem_key [OF assms(5)] obtain w where "getitem LIKERT_5_SIMPLE (f_satisfaction_label f) = Inr w" ..
  ultimately show ?thesis using assms(1-3)
    by (simp add: submit_task_def Let_def ensure_participant_noop)
qed

lemma submit_exit_rejected:
  assumes "participant_id (session_state st) = Some pid" "pid \<noteq> []"
      and "\<not> has_consented num (data st) pid"
  shows "submit_exit num e f st = Inr (st, [require_consent_warning])"
  using assms by (simp add: submit_exit_def Let_def ensure_participant_noop)

text \<open>
  C1. Let \<open>pid\<close> be the participant identifier of the session in a run of the script (after
  the sidebar has ensured there is one), and let no row of the consent file have this
  identifier. Then a demographic, a task and an exit submission are each rejected: the only
  message is the consent warning, and the state after the run differs from the state
  before at most in the session, so the four files, and with them their row counts, are
  unchanged. (The sliders return listed labels; for any other label the lookup raises
  before the submission is examined.)
\<close>

theorem rejected_without_consent:
  assumes "participant_id (ensure_participant (uuid4_sidebar e) (session_state st)) = Some pid"
      and "pid \<notin> set (consent_pids (data st))"
  shows "(f_familiarity_label df \<in> fst ` set LIKERT_5_SIMPLE \<longrightarrow>
            main num e (SubmitDemographics df) st
              = Inr (st\<lparr>session_state := ensure_participant (uuid4_sidebar e) (session_state st)\<rparr>,
                     [require_consent_warning]))
       \<and> (f_perceived_difficulty_label tf \<in> fst ` set LIKERT_5_SIMPLE
            \<and> f_satisfaction_label tf \<in> fst ` set LIKERT_5_SIMPLE \<longrightarrow>
            main num e (SaveTaskResults tf) st
              = Inr (st\<lparr>session_state := ensure_participant (uuid4_sidebar e) (session_state st)\<rparr>,
                     [require_consent_warning]))
       \<and> main num e (SubmitExit ef) st
              = Inr (st\<lparr>session_state := ensure_participant (uuid4_sidebar e) (session_state st)\<rparr>,
                     [require_consent_warning])
       \<and> data (st\<lparr>session_state := ensure_participant (uuid4_sidebar e) (session_state st)\<rparr>) = data st"
proof -
  let ?st1 = "st\<lparr>session_state := ensure_participant (uuid4_sidebar e) (session_state st)\<rparr>"
  have pid: "participant_id (session_state ?st1) = Some pid" using assms(1) by simp
  have ne: "pid \<noteq> []" using assms(1) by (rule ensure_participant_nonempty)
  have nc: "\<not> has_consented num (data ?st1) pid"
    using assms(2) has_consented_stored [of num "data st" pid] by auto
  show ?thesis
    using submit_demographics_rejected [OF pid ne nc, of df e]
      submit_task_rejected [OF pid ne nc, of tf e]
      submit_exit_rejected [OF pid ne nc, of e ef]
    by (simp add: main_def)
qed

theorem rejected_without_consent_witness:
  "main decimal_literal example_env (SubmitDemographics example_demographic_form) example_state
     = Inr (example_state, [require_consent_warning])
   \<and> main decimal_literal example_env (SaveTaskResults example_task_form) example_state
     = Inr (example_state, [require_consent_warning])
   \<and> main decimal_literal example_env (SubmitExit example_exit_form) example_state
     = Inr (example_state, [require_consent_warning])"
proof -
  have pid: "participant_id (ensure_participant (uuid4_sidebar example_env) (session_state example_state))
      = Some ''P-1a2b3c4d''"
    by (simp add: ensure_participant_def example_state_def example_session_def)
  have no: "''P-1a2b3c4d'' \<notin> set (consent_pids (data example_state))"
    by (simp add: consent_pids_def rows_of_def example_state_def no_files_def example_consent_row_def)
  have same: "example_state\<lparr>session_state :=
      ensure_participant (uuid4_sidebar example_env) (session_state example_state)\<rparr> = example_state"
    by (simp add: ensure_participant_def example_state_def example_session_def)
  have labels: "f_familiarity_label example_demographic_form \<in> fst ` set LIKERT_5_SIMPLE"
    "f_perceived_difficulty_label example_task_form \<in> fst ` set LIKERT_5_SIMPLE"
    "f_satisfaction_label example_task_form \<in> fst ` set LIKERT_5_SIMPLE"
    by (simp_all add: example_demographic_form_def example_task_form_def LIKERT_5_SIMPLE_def)
  from rejected_without_consent [OF pid no, of example_demographic_form decimal_literal
      example_task_form example_exit_form] labels
  show ?thesis unfolding same by simp
qed


subsection \<open>What a run appends\<close>

lemma rows_of_save: "rows_of (save_to_csv r f) = rows_of f @ [r]"
  by (simp add: rows_of_def save_to_csv_def split: option.splits)

lemma submit_consent_data:
  "submit_consent e g n st = Inr (st', out) \<Longrightarrow>
     DEMOGRAPHIC_CSV (data st') = DEMOGRAPHIC_CSV (data st)
   \<and> TASK_CSV (data st') = TASK_CSV (data st)
   \<and> EXIT_CSV (data st') = EXIT_CSV (data st)
   \<and> task_duration (session_state st') = task_duration (session_state st)
   \<and> (rows_of (CONSENT_CSV (data st')) = rows_of (CONSENT_CSV (data st))
      \<or> (\<exists>r. rows_of (CONSENT_CSV (data st')) = rows_of (CONSENT_CSV (data st)) @ [r]
             \<and> c_consent_given r))"
  by (auto simp: submit_consent_def Let_def rows_of_save ensure_participant_timer
           split: if_splits option.splits)

lemma submit_demographics_data:
  "submit_demographics num e f st = Inr (st', out) \<Longrightarrow>
     CONSENT_CSV (data st') = CONSENT_CSV (data st)
   \<and> TASK_CSV (data st') = TASK_CSV (data st)
   \<and> task_duration (session_state st') = task_duration (session_state st)"
  by (auto simp: submit_demographics_def Let_def ensure_participant_timer
           split: if_splits option.splits sum.splits)

lemma submit_exit_data:
  "submit_exit num e f st = Inr (st', out) \<Longrightarrow>
     CONSENT_CSV (data st') = CONSENT_CSV (data st)
   \<and> TASK_CSV (data st') = TASK_CSV (data st)
   \<and> task_duration (session_state st') = task_duration (session_state st)"
  by (auto simp: submit_exit_def Let_def ensure_participant_timer
           split: if_splits option.splits sum.splits)

lemma submit_task_data:
  "submit_task num e f st = Inr (st', out) \<Longrightarrow>
     CONSENT_CSV (data st') = CONSENT_CSV (data st)
   \<and> (task_duration (session_state st') = task_duration (session_state st)
      \<or> task_duration (session_state st') = None)
   \<and> (rows_of (TASK_CSV (data st')) = rows_of (TASK_CSV (data st))
      \<or> (\<exists>r. rows_of (TASK_CSV (data st')) = rows_of (TASK_CSV (data st)) @ [r]
             \<and> t_duration_seconds r = duration_seconds_field (session_state st)))"
  by (auto simp: submit_task_def Let_def ensure_participant_timer rows_of_save
        duration_seconds_field_def
           split: if_splits option.splits sum.splits)

lemma main_consent_rows:
  assumes "main num e ev st = Inr (st', out)"
  shows "\<exists>new. rows_of (CONSENT_CSV (data st')) = rows_of (CONSENT_CSV (data st)) @ new
           \<and> (\<forall>r \<in> set new. c_consent_given r)"
proof (cases ev)
  case (SubmitConsent g n)
  with assms have "submit_consent e g n
      (st\<lparr>session_state := ensure_participant (uuid4_sidebar e) (session_state st)\<rparr>) = Inr (st', out)"
    by (simp add: main_def)
  from submit_consent_data [OF this] show ?thesis by auto
next
  case (SubmitDemographics f)
  with assms have "submit_demographics num e f
      (st\<lparr>session_state := ensure_participant (uuid4_sidebar e) (session_state st)\<rparr>) = Inr (st', out)"
    by (simp add: main_def)
  from submit_demographics_data [OF this] show ?thesis by simp
next
  case (SaveTaskResults f)
  with assms have "submit_task num e f
      (st\<lparr>session_state := ensure_participant (uuid4_sidebar e) (session_state st)\<rparr>) = Inr (st', out)"
    by (simp add: main_def)
  from submit_task_data [OF this] show ?thesis by simp
next
  case (SubmitExit f)
  with assms have "submit_exit num e f
      (st\<lparr>session_state := ensure_participant (uuid4_sidebar e) (session_state st)\<rparr>) = Inr (st', out)"
    by (simp add: main_def)
  from submit_exit_data [OF this] show ?thesis by simp
qed (use assms in \<open>auto simp: main_def on_session_def start_timer_def stop_timer_def Let_def
       split: option.splits if_splits\<close>)

lemma run_consent_rows:
  "run num steps st = Inr st' \<Longrightarrow>
     \<exists>new. rows_of (CONSENT_CSV (data st')) = rows_of (CONSENT_CSV (data st)) @ new
        \<and> (\<forall>r \<in> set new. c_consent_given r)"
proof (induction steps arbitrary: st)
  case Nil
  then show ?case by simp
next
  case (Cons step steps)
  obtain e ev where step: "step = (e, ev)" by (cases step)
  from Cons.prems step obtain st1 out where
    m: "main num e ev st = Inr (st1, out)" and r: "run num steps st1 = Inr st'"
    by (auto split: sum.splits)
  from main_consent_rows [OF m] obtain new1 where
    n1: "rows_of (CONSENT_CSV (data st1)) = rows_of (CONSENT_CSV (data st)) @ new1"
        "\<forall>r \<in> set new1. c_consent_given r" by blast
  from Cons.IH [OF r] obtain new2 where
    n2: "rows_of (CONSENT_CSV (data st')) = rows_of (CONSENT_CSV (data st1)) @ new2"
        "\<forall>r \<in> set new2. c_consent_given r" by blast
  from n1 n2 have "rows_of (CONSENT_CSV (data st')) = rows_of (CONSENT_CSV (data st)) @ (new1 @ new2)
      \<and> (\<forall>r \<in> set (new1 @ new2). c_consent_given r)" by auto
  then show ?case by blast
qed

text \<open>
  C10. Whatever sequence of runs the script makes, the rows it appends to the consent file
  all have \<open>consent_given\<close> true; and a consent submission with the box unchecked appends
  nothing and reports the warning.
\<close>

theorem consent_rows_given:
  "(run num steps st = Inr st' \<longrightarrow>
      (\<exists>new. rows_of (CONSENT_CSV (data st')) = rows_of (CONSENT_CSV (data st)) @ new
          \<and> (\<forall>r \<in> set new. c_consent_given r = True)))
   \<and> main num e (SubmitConsent False name) st
       = Inr (st\<lparr>session_state := ensure_participant (uuid4_sidebar e) (session_state st)\<rparr>,
              [Warning ''You must agree to the consent terms before proceeding.''])"
  using run_consent_rows [of num steps st st']
  by (simp add: main_def submit_consent_def)

theorem consent_rows_given_witness:
  "run decimal_literal
     [(example_env, SubmitConsent False ''Bo''), (example_env, SubmitConsent True ''Bo'')] example_state
     = Inr (example_state\<lparr>data := (data example_state)\<lparr>CONSENT_CSV := Some
         [example_consent_row,
          \<lparr>c_timestamp = ''2024-05-01 10:00:00'', c_participant_id = ''P-1a2b3c4d'',
           c_consent_given = True, c_display_name = ''Bo''\<rparr>]\<rparr>\<rparr>)
   \<and> (\<exists>new. [example_consent_row,
          \<lparr>c_timestamp = ''2024-05-01 10:00:00'', c_participant_id = ''P-1a2b3c4d'',
           c_consent_given = True, c_display_name = ''Bo''\<rparr>] = [example_consent_row] @ new
         \<and> (\<forall>r \<in> set new. c_consent_given r = True))"
proof -
  let ?st' = "example_state\<lparr>data := (data example_state)\<lparr>CONSENT_CSV := Some
         [example_consent_row,
          \<lparr>c_timestamp = ''2024-05-01 10:00:00'', c_participant_id = ''P-1a2b3c4d'',
           c_consent_given = True, c_display_name = ''Bo''\<rparr>]\<rparr>\<rparr>"
  have r: "run decimal_literal
     [(example_env, SubmitConsent False ''Bo''), (example_env, SubmitConsent True ''Bo'')] example_state
     = Inr ?st'"
    by code_simp
  have rows: "rows_of (CONSENT_CSV (data ?st')) = [example_consent_row,
          \<lparr>c_timestamp = ''2024-05-01 10:00:00'', c_participant_id = ''P-1a2b3c4d'',
           c_consent_given = True, c_display_name = ''Bo''\<rparr>]"
    "rows_of (CONSENT_CSV (data example_state)) = [example_consent_row]"
    by (simp_all add: rows_of_def example_state_def no_files_def)
  from consent_rows_given [of decimal_literal _ example_state ?st' example_env "''Bo''"] r
  show ?thesis unfolding rows by simp
qed


lemma duration_seconds_field_no_measurement:
  "no_measurement s \<Longrightarrow> duration_seconds_field s = EmptyString"
  by (auto simp: no_measurement_def duration_seconds_field_def)

lemma main_no_measurement:
  assumes "main num e ev st = Inr (st', out)" and "no_measurement (session_state st)"
      and "\<not> is_stop ev"
  shows "no_measurement (session_state st')
       \<and> (\<exists>new. rows_of (TASK_CSV (data st')) = rows_of (TASK_CSV (data st)) @ new
           \<and> (\<forall>r \<in> set new. t_duration_seconds r = EmptyString))"
proof (cases ev)
  case (SubmitConsent g n)
  with assms have "submit_consent e g n
      (st\<lparr>session_state := ensure_participant (uuid4_sidebar e) (session_state st)\<rparr>) = Inr (st', out)"
    by (simp add: main_def)
  from submit_consent_data [OF this] assms(2) show ?thesis
    by (simp add: no_measurement_def ensure_participant_timer rows_of_def)
next
  case (SubmitDemographics f)
  with assms have "submit_demographics num e f
      (st\<lparr>session_state := ensure_participant (uuid4_sidebar e) (session_state st)\<rparr>) = Inr (st', out)"
    by (simp add: main_def)
  from submit_demographics_data [OF this] assms(2) show ?thesis
    by (simp add: no_measurement_def ensure_participant_timer)
next
  case (SaveTaskResults f)
  let ?st1 = "st\<lparr>session_state := ensure_participant (uuid4_sidebar e) (session_state st)\<rparr>"
  from SaveTaskResults assms have "submit_task num e f ?st1 = Inr (st', out)"
    by (simp add: main_def)
  note td = submit_task_data [OF this]
  from td have d: "task_duration (session_state st') = task_duration (session_state ?st1)
             \<or> task_duration (session_state st') = None"
    by (rule conjunct1 [OF conjunct2])
  from td have r: "rows_of (TASK_CSV (data st')) = rows_of (TASK_CSV (data ?st1))
      \<or> (\<exists>r. rows_of (TASK_CSV (data st')) = rows_of (TASK_CSV (data ?st1)) @ [r]
             \<and> t_duration_seconds r = duration_seconds_field (session_state ?st1))"
    by (rule conjunct2 [OF conjunct2])
  have nm: "no_measurement (session_state ?st1)"
    using assms(2) by (simp add: no_measurement_def ensure_participant_timer)
  from d nm have "no_measurement (session_state st')"
    by (auto simp: no_measurement_def)
  moreover from r duration_seconds_field_no_measurement [OF nm]
  have "\<exists>new. rows_of (TASK_CSV (data st')) = rows_of (TASK_CSV (data st)) @ new
           \<and> (\<forall>r \<in> set new. t_duration_seconds r = EmptyString)"
    by auto
  ultimately show ?thesis ..
next
  case (SubmitExit f)
  with assms have "submit_exit num e f
      (st\<lparr>session_state := ensure_participant (uuid4_sidebar e) (session_state st)\<rparr>) = Inr (st', out)"
    by (simp add: main_def)
  from submit_exit_data [OF this] assms(2) show ?thesis
    by (simp add: no_measurement_def ensure_participant_timer)
qed (use assms in \<open>auto simp: main_def on_session_def start_timer_def is_stop_def
       no_measurement_def ensure_participant_timer\<close>)

lemma run_no_measurement:
  "run num steps st = Inr st' \<Longrightarrow> no_measurement (session_state st) \<Longrightarrow>
   \<not> list_ex (\<lambda>step. is_stop (snd step)) steps \<Longrightarrow>
     no_measurement (session_state st')
       \<and> (\<exists>new. rows_of (TASK_CSV (data st')) = rows_of (TASK_CSV (data st)) @ new
           \<and> (\<forall>r \<in> set new. t_duration_seconds r = EmptyString))"
proof (induction steps arbitrary: st)
  case Nil
  then show ?case by simp
next
  case (Cons step steps)
  obtain e ev where step: "step = (e, ev)" by (cases step)
  from Cons.prems(1) step obtain st1 out where
    m: "main num e ev st = Inr (st1, out)" and r: "run num steps st1 = Inr st'"
    by (auto split: sum.splits)
  from Cons.prems(3) step have ns: "\<not> is_stop ev"
    and nss: "\<not> list_ex (\<lambda>step. is_stop (snd step)) steps" by simp_all
  from main_no_measurement [OF m Cons.prems(2) ns] obtain new1 where
    n1: "no_measurement (session_state st1)"
        "rows_of (TASK_CSV (data st1)) = rows_of (TASK_CSV (data st)) @ new1"
        "\<forall>r \<in> set new1. t_duration_seconds r = EmptyString" by blast
  from Cons.IH [OF r n1(1) nss] obtain new2 where
    n2: "no_measurement (session_state st')"
        "rows_of (TASK_CSV (data st')) = rows_of (TASK_CSV (data st1)) @ new2"
        "\<forall>r \<in> set new2. t_duration_seconds r = EmptyString" by blast
  from n1 n2 have "rows_of (TASK_CSV (data st')) = rows_of (TASK_CSV (data st)) @ (new1 @ new2)
      \<and> (\<forall>r \<in> set (new1 @ new2). t_duration_seconds r = EmptyString)" by auto
  with n2(1) show ?case by blast
qed

lemma main_start:
  "main num e StartTaskTimer st = Inr (st1, out) \<Longrightarrow>
     task_duration (session_state st1) = Some None \<and> data st1 = data st"
  by (auto simp: main_def on_session_def start_timer_def)

text \<open>
  C9. The start button leaves the value None for the measured duration, whatever an
  earlier cycle had stored. Hence, from a press of start on, as long as stop is not pressed,
  every task record that is saved has the empty duration field.
\<close>

theorem start_clears_duration:
  "task_duration (fst (start_timer now s)) = Some None
   \<and> (main num e StartTaskTimer st = Inr (st1, out)
        \<and> \<not> list_ex (\<lambda>step. is_stop (snd step)) steps
        \<and> run num steps st1 = Inr st2 \<longrightarrow>
          (\<exists>new. rows_of (TASK_CSV (data st2)) = rows_of (TASK_CSV (data st)) @ new
             \<and> (\<forall>r \<in> set new. t_duration_seconds r = EmptyString)))"
proof -
  have a: "task_duration (fst (start_timer now s)) = Some None"
    by (simp add: start_timer_def)
  have b: "main num e StartTaskTimer st = Inr (st1, out)
        \<and> \<not> list_ex (\<lambda>step. is_stop (snd step)) steps
        \<and> run num steps st1 = Inr st2 \<longrightarrow>
          (\<exists>new. rows_of (TASK_CSV (data st2)) = rows_of (TASK_CSV (data st)) @ new
             \<and> (\<forall>r \<in> set new. t_duration_seconds r = EmptyString))"
  proof
    assume h: "main num e StartTaskTimer st = Inr (st1, out)
        \<and> \<not> list_ex (\<lambda>step. is_stop (snd step)) steps
        \<and> run num steps st1 = Inr st2"
    from main_start [of num e st st1 out] h
    have s1: "task_duration (session_state st1) = Some None" "data st1 = data st" by simp_all
    then have "no_measurement (session_state st1)" by (simp add: no_measurement_def)
    from run_no_measurement [of num steps st1 st2, OF _ this] h s1(2)
    show "\<exists>new. rows_of (TASK_CSV (data st2)) = rows_of (TASK_CSV (data st)) @ new
             \<and> (\<forall>r \<in> set new. t_duration_seconds r = EmptyString)" by simp
  qed
  from a b show ?thesis ..
qed

theorem start_clears_duration_witness:
  "main decimal_literal example_env StartTaskTimer measured_state
     = Inr (consented_state\<lparr>session_state :=
              example_session\<lparr>task_start_time := Some 1714557600, task_duration := Some None\<rparr>\<rparr>,
            [Success ''Timer started.''])
   \<and> run decimal_literal [(example_env, SaveTaskResults example_task_form)]
       (consented_state\<lparr>session_state :=
              example_session\<lparr>task_start_time := Some 1714557600, task_duration := Some None\<rparr>\<rparr>)
     = Inr (consented_state\<lparr>data := (data consented_state)\<lparr>TASK_CSV :=
              Some [example_task_row EmptyString]\<rparr>\<rparr>)
   \<and> (\<exists>new. [example_task_row EmptyString] = [] @ new
         \<and> (\<forall>r \<in> set new. t_duration_seconds r = EmptyString))"
proof -
  let ?st1 = "consented_state\<lparr>session_state :=
              example_session\<lparr>task_start_time := Some 1714557600, task_duration := Some None\<rparr>\<rparr>"
  let ?st2 = "consented_state\<lparr>data := (data consented_state)\<lparr>TASK_CSV :=
              Some [example_task_row EmptyString]\<rparr>\<rparr>"
  have m: "main decimal_literal example_env StartTaskTimer measured_state
     = Inr (?st1, [Success ''Timer started.''])"
    by code_simp
  have r: "run decimal_literal [(example_env, SaveTaskResults example_task_form)] ?st1 = Inr ?st2"
    by code_simp
  have ns: "\<not> list_ex (\<lambda>step. is_stop (snd step)) [(example_env, SaveTaskResults example_task_form)]"
    by (simp add: is_stop_def)
  have rows: "rows_of (TASK_CSV (data ?st2)) = [example_task_row EmptyString]"
    "rows_of (TASK_CSV (data measured_state)) = []"
    by (simp_all add: rows_of_def measured_state_def consented_state_def no_files_def)
  from start_clears_duration [of 0 example_session decimal_literal example_env measured_state
      ?st1 "[Success ''Timer started.'']" "[(example_env, SaveTaskResults example_task_form)]" ?st2]
    m r ns
  show ?thesis unfolding rows by simp
qed


subsection \<open>The duration field of a task record\<close>

lemma duration_seconds_field_measured:
  "task_duration s = Some (Some d) \<Longrightarrow> d \<noteq> 0 \<Longrightarrow> duration_seconds_field s = Seconds (round3 d)"
  by (simp add: duration_seconds_field_def)

lemma duration_seconds_field_zero:
  "task_duration s = Some (Some 0) \<Longrightarrow> duration_seconds_field s = EmptyString"
  by (simp add: duration_seconds_field_def)

lemma round_half_even_close: "\<bar>of_int (round_half_even x) - x\<bar> \<le> 1 / 2"
proof -
  have "of_int \<lfloor>x\<rfloor> \<le> x" "x < of_int \<lfloor>x\<rfloor> + 1" by linarith+
  then show ?thesis
    by (auto simp: round_half_even_def Let_def abs_le_iff)
qed

lemma round3_close: "\<bar>round3 x - x\<bar> \<le> 1 / 2000"
proof -
  have "\<bar>of_int (round_half_even (x * 1000)) - x * 1000\<bar> \<le> 1 / 2"
    by (rule round_half_even_close)
  then show ?thesis by (simp add: round3_def abs_le_iff field_simps)
qed

text \<open>
  C4. A task record saved without a measured duration has the empty string in its duration
  field, and one saved after a measurement other than zero has the measurement rounded to
  three decimals (the two lemmas above and \<open>duration_seconds_field_no_measurement\<close>). A
  measured duration of exactly zero, however, is saved as the empty string as well: the
  field is chosen by the truth value of the measurement. Below, start and stop are pressed
  at the same clock reading, so that the session holds the measurement 0; the record saved
  next is the one saved when nothing was measured. The last run shows a measurement of
  12.3456 seconds saved as 12.346.
\<close>

theorem zero_duration_saved_as_empty:
  "run decimal_literal [(example_env, StartTaskTimer), (example_env, StopTaskTimer)] consented_state
     = Inr (consented_state\<lparr>session_state :=
              example_session\<lparr>task_start_time := Some 1714557600, task_duration := Some (Some 0)\<rparr>\<rparr>)
   \<and> run decimal_literal [(example_env, SaveTaskResults example_task_form)]
       (consented_state\<lparr>session_state :=
              example_session\<lparr>task_start_time := Some 1714557600, task_duration := Some (Some 0)\<rparr>\<rparr>)
     = Inr (consented_state\<lparr>data := (data consented_state)\<lparr>TASK_CSV :=
              Some [example_task_row EmptyString]\<rparr>\<rparr>)
   \<and> run decimal_literal [(example_env, SaveTaskResults example_task_form)] measured_state
     = Inr (consented_state\<lparr>data := (data consented_state)\<lparr>TASK_CSV :=
              Some [example_task_row (Seconds (12346 / 1000))]\<rparr>\<rparr>)"
  by code_simp


subsection \<open>Identifiers that read back as numbers\<close>

lemma has_consented_loaded:
  "has_consented num fs pid \<longleftrightarrow>
     rows_of (CONSENT_CSV fs) \<noteq> [] \<and> Str pid \<in> set (read_csv_column num (consent_pids fs))"
proof (cases "CONSENT_CSV fs")
  case None
  then show ?thesis
    by (simp add: has_consented_def load_consent_def df_empty_def rows_of_def)
next
  case (Some rows)
  have "df_empty (load_consent num (Some rows)) \<longleftrightarrow> rows = []"
    by (simp add: df_empty_def load_consent_def read_csv_def consent_to_csv_def read_csv_column_def)
  with Some show ?thesis
    by (auto simp: has_consented_def Let_def participant_column consent_pids_def rows_of_def)
qed


lemma read_csv_column_text:
  assumes "p \<in> set col" "\<not> is_na p" "num p = None"
      and "p \<notin> set true_values" "p \<notin> set false_values"
  shows "Str p \<in> set (read_csv_column num col)"
proof -
  from assms(1-3) have a: "\<not> list_all (\<lambda>t. is_na t \<or> num t \<noteq> None) col"
    by (auto simp: list_all_iff)
  from assms(1,2,4,5) have b: "\<not> list_all (\<lambda>t. is_na t \<or> t \<in> set true_values \<or> t \<in> set false_values) col"
    by (auto simp: list_all_iff)
  from assms(1,2) have "Str p \<in> set (map (\<lambda>t. if is_na t then NaN else Str t) col)"
    by force
  with a b show ?thesis by (simp add: read_csv_column_def)
qed

lemma has_consented_text_id:
  assumes "pid \<in> set (consent_pids fs)" "\<not> is_na pid" "num pid = None"
      and "pid \<notin> set true_values" "pid \<notin> set false_values"
  shows "has_consented num fs pid"
proof -
  from assms(1) have "rows_of (CONSENT_CSV fs) \<noteq> []"
    by (auto simp: consent_pids_def)
  moreover have "Str pid \<in> set (read_csv_column num (consent_pids fs))"
    using assms by (rule read_csv_column_text)
  ultimately show ?thesis
    by (simp add: has_consented_loaded)
qed

lemma generated_id_is_text:
  "\<not> is_na (''P-'' @ tok) \<and> ''P-'' @ tok \<notin> set true_values \<and> ''P-'' @ tok \<notin> set false_values"
  by (simp add: is_na_def na_values_def true_values_def false_values_def)

text \<open>
  C5. The consent test holds exactly when the frame read from the consent file has a row and
  its participant column contains the identifier as a string (\<open>has_consented_loaded\<close>).
  For an identifier that is read back as text, such as a generated one, that is the case
  as soon as a row has been written for it (\<open>has_consented_text_id\<close>). It is not the
  case for every identifier: a participant who typed \<^verbatim>\<open>123\<close> into the identifier field
  and submitted consent has a row in the file, but the column is read back as numbers, the
  test fails, and the next submission is rejected with the consent warning.
\<close>

theorem numeric_id_not_recognised:
  "main decimal_literal example_env (SubmitConsent True ''Zed'') numeric_id_state
     = Inr (numeric_id_state\<lparr>data := no_files\<lparr>CONSENT_CSV := Some
              [\<lparr>c_timestamp = ''2024-05-01 10:00:00'', c_participant_id = ''123'',
                c_consent_given = True, c_display_name = ''Zed''\<rparr>]\<rparr>\<rparr>,
            [Success ''Consent recorded. You may proceed to the Demographics tab.''])
   \<and> has_consented decimal_literal
        (no_files\<lparr>CONSENT_CSV := Some
              [\<lparr>c_timestamp = ''2024-05-01 10:00:00'', c_participant_id = ''123'',
                c_consent_given = True, c_display_name = ''Zed''\<rparr>]\<rparr>) ''123'' = False
   \<and> main decimal_literal example_env (SubmitExit example_exit_form)
        (numeric_id_state\<lparr>data := no_files\<lparr>CONSENT_CSV := Some
              [\<lparr>c_timestamp = ''2024-05-01 10:00:00'', c_participant_id = ''123'',
                c_consent_given = True, c_display_name = ''Zed''\<rparr>]\<rparr>\<rparr>)
     = Inr (numeric_id_state\<lparr>data := no_files\<lparr>CONSENT_CSV := Some
              [\<lparr>c_timestamp = ''2024-05-01 10:00:00'', c_participant_id = ''123'',
                c_consent_given = True, c_display_name = ''Zed''\<rparr>]\<rparr>\<rparr>,
            [require_consent_warning])"
  by code_simp

subsection \<open>The timer\<close>

lemma submit_consent_start:
  "submit_consent e g n st = Inr (st', out) \<Longrightarrow>
     task_start_time (session_state st') = task_start_time (session_state st)"
  by (auto simp: submit_consent_def Let_def ensure_participant_timer
           split: if_splits option.splits)

lemma submit_demographics_start:
  "submit_demographics num e f st = Inr (st', out) \<Longrightarrow>
     task_start_time (session_state st') = task_start_time (session_state st)"
  by (auto simp: submit_demographics_def Let_def ensure_participant_timer
           split: if_splits option.splits sum.splits)

lemma submit_exit_start:
  "submit_exit num e f st = Inr (st', out) \<Longrightarrow>
     task_start_time (session_state st') = task_start_time (session_state st)"
  by (auto simp: submit_exit_def Let_def ensure_participant_timer
           split: if_splits option.splits sum.splits)

lemma submit_task_start:
  "submit_task num e f st = Inr (st', out) \<Longrightarrow>
     task_start_time (session_state st') = task_start_time (session_state st)
   \<or> task_start_time (session_state st') = None"
  by (auto simp: submit_task_def Let_def ensure_participant_timer
           split: if_splits option.splits sum.splits)

lemma main_start_time_ok:
  assumes "main num e ev st = Inr (st', out)" and "0 < time_time e"
      and "start_time_ok (session_state st)"
  shows "start_time_ok (session_state st')"
proof (cases ev)
  case (SubmitConsent g n)
  with assms have "submit_consent e g n
      (st\<lparr>session_state := ensure_participant (uuid4_sidebar e) (session_state st)\<rparr>) = Inr (st', out)"
    by (simp add: main_def)
  from submit_consent_start [OF this] assms(3) show ?thesis
    by (simp add: start_time_ok_def ensure_participant_timer)
next
  case (SubmitDemographics f)
  with assms have "submit_demographics num e f
      (st\<lparr>session_state := ensure_participant (uuid4_sidebar e) (session_state st)\<rparr>) = Inr (st', out)"
    by (simp add: main_def)
  from submit_demographics_start [OF this] assms(3) show ?thesis
    by (simp add: start_time_ok_def ensure_participant_timer)
next
  case (SaveTaskResults f)
  with assms have "submit_task num e f
      (st\<lparr>session_state := ensure_participant (uuid4_sidebar e) (session_state st)\<rparr>) = Inr (st', out)"
    by (simp add: main_def)
  from submit_task_start [OF this] assms(3) show ?thesis
    by (auto simp: start_time_ok_def ensure_participant_timer)
next
  case (SubmitExit f)
  with assms have "submit_exit num e f
      (st\<lparr>session_state := ensure_participant (uuid4_sidebar e) (session_state st)\<rparr>) = Inr (st', out)"
    by (simp add: main_def)
  from submit_exit_start [OF this] assms(3) show ?thesis
    by (simp add: start_time_ok_def ensure_participant_timer)
qed (use assms in \<open>auto simp: main_def on_session_def start_timer_def stop_timer_def Let_def
       start_time_ok_def ensure_participant_timer split: option.splits if_splits\<close>)

lemma run_start_time_ok:
  "run num steps st = Inr st' \<Longrightarrow> list_all (\<lambda>step. 0 < time_time (fst step)) steps \<Longrightarrow>
   start_time_ok (session_state st) \<Longrightarrow> start_time_ok (session_state st')"
proof (induction steps arbitrary: st)
  case Nil
  then show ?case by simp
next
  case (Cons step steps)
  obtain e ev where step: "step = (e, ev)" by (cases step)
  from Cons.prems(1) step obtain st1 out where
    m: "main num e ev st = Inr (st1, out)" and r: "run num steps st1 = Inr st'"
    by (auto split: sum.splits)
  from Cons.prems(2) step have pos: "0 < time_time e"
    and rest: "list_all (\<lambda>step. 0 < time_time (fst step)) steps" by simp_all
  from main_start_time_ok [OF m pos Cons.prems(3)] have "start_time_ok (session_state st1)" .
  from Cons.IH [OF r rest this] show ?case .
qed

text \<open>
  C8. When the session holds no start time (the timer was never started, or it was reset by
  a saved task), the stop button changes nothing in the session state and reports the
  warning. The start button stores its clock reading as the start time. A clock reading is
  the number of seconds since 1970 and positive; in every state that runs of the script
  with positive clock readings lead to, the start time is absent or positive. Whenever the
  session holds a positive start time, whether or not stop was pressed before, the stop
  button stores the elapsed time, now minus start.
\<close>

theorem stop_timer_spec:
  "(task_start_time s = None \<longrightarrow> stop_timer now s = (s, [Warning ''Timer was not started.'']))
   \<and> task_start_time (fst (start_timer t0 s)) = Some t0
   \<and> (0 < t0 \<and> task_start_time s = Some t0 \<longrightarrow>
        stop_timer now s = (s\<lparr>task_duration := Some (Some (now - t0))\<rparr>, [TimerStopped (now - t0)]))
   \<and> (list_all (\<lambda>step. 0 < time_time (fst step)) steps \<and> start_time_ok (session_state st)
        \<and> run num steps st = Inr st' \<longrightarrow> start_time_ok (session_state st'))"
  using run_start_time_ok [of num steps st st']
  by (simp add: stop_timer_def start_timer_def Let_def)

theorem stop_timer_spec_witness:
  "stop_timer 1714557612 example_session = (example_session, [Warning ''Timer was not started.''])
   \<and> stop_timer 1714557620
        (fst (stop_timer 1714557612 (fst (start_timer 1714557600 example_session))))
     = (example_session\<lparr>task_start_time := Some 1714557600, task_duration := Some (Some 20)\<rparr>,
        [TimerStopped 20])
   \<and> start_time_ok (session_state consented_state)"
proof -
  have s1: "fst (stop_timer 1714557612 (fst (start_timer 1714557600 example_session)))
      = example_session\<lparr>task_start_time := Some 1714557600, task_duration := Some (Some 12)\<rparr>"
    by (simp add: stop_timer_def start_timer_def example_session_def)
  have none: "task_start_time example_session = None"
    by (simp add: example_session_def)
  have r: "run decimal_literal [] consented_state = Inr consented_state" by simp
  have ok: "start_time_ok (session_state consented_state)"
    by (simp add: start_time_ok_def consented_state_def example_session_def)
  from stop_timer_spec [where s = example_session and now = 1714557612 and ?t0.0 = 1
      and steps = "[]" and st = consented_state and num = decimal_literal and st' = consented_state]
    none
  have a: "stop_timer 1714557612 example_session = (example_session, [Warning ''Timer was not started.''])"
    by simp
  from stop_timer_spec [where s = "example_session\<lparr>task_start_time := Some 1714557600, task_duration := Some (Some 12)\<rparr>"
      and now = 1714557620 and ?t0.0 = 1714557600
      and steps = "[]" and st = consented_state and num = decimal_literal and st' = consented_state]
  have b: "stop_timer 1714557620
      (example_session\<lparr>task_start_time := Some 1714557600, task_duration := Some (Some 12)\<rparr>)
     = (example_session\<lparr>task_start_time := Some 1714557600, task_duration := Some (Some 20)\<rparr>,
        [TimerStopped 20])"
    by simp
  from a b ok show ?thesis unfolding s1 by simp
qed

section \<open>Properties of the report\<close>

subsection \<open>Sorting and grouping\<close>

lemma set_insort_by: "set (insort_by le x xs) = insert x (set xs)"
  by (induction xs) auto

lemma set_sort_by: "set (sort_by le xs) = set xs"
  by (induction xs) (simp_all add: sort_by_def set_insort_by)

lemma distinct_map_insort_by:
  "distinct (map f (insort_by le x xs)) = distinct (map f (x # xs))"
  by (induction xs) (auto simp: set_insort_by)

lemma distinct_map_sort_by: "distinct (map f (sort_by le xs)) = distinct (map f xs)"
proof (induction xs)
  case Nil
  then show ?case by (simp add: sort_by_def)
next
  case (Cons x xs)
  have "distinct (map f (sort_by le (x # xs))) = distinct (map f (x # sort_by le xs))"
    by (simp add: sort_by_def distinct_map_insort_by)
  with Cons show ?case by (simp add: set_sort_by)
qed

lemma value_ge_total: "\<not> value_ge tie a b \<Longrightarrow> value_ge tie b a"
  by (auto simp: value_ge_def split: option.splits)

lemma value_ge_trans: "value_ge tie a b \<Longrightarrow> value_ge tie b c \<Longrightarrow> value_ge tie a c"
  by (auto simp: value_ge_def split: option.splits)

lemma sorted_insort_value:
  "sorted_wrt (value_ge tie) xs \<Longrightarrow> sorted_wrt (value_ge tie) (insort_by (value_ge tie) x xs)"
proof (induction xs)
  case Nil
  then show ?case by simp
next
  case (Cons y ys)
  show ?case
  proof (cases "value_ge tie x y")
    case True
    with Cons.prems show ?thesis by (auto intro: value_ge_trans)
  next
    case False
    then have "value_ge tie y x" by (rule value_ge_total)
    with False Cons show ?thesis by (auto simp: set_insort_by)
  qed
qed

lemma sorted_sort_values: "sorted_wrt (value_ge tie) (sort_values_descending tie s)"
  unfolding sort_values_descending_def
  by (induction s) (simp_all add: sort_by_def sorted_insort_value)

lemma set_group_keys: "set (group_keys keys) = set keys - {NaN}"
  by (auto simp: group_keys_def set_sort_by)

lemma distinct_group_keys: "distinct (group_keys keys)"
  using distinct_map_sort_by [of id key_le "remdups (filter (\<lambda>k. k \<noteq> NaN) keys)"]
  by (simp add: group_keys_def)

lemma group_values_map:
  "group_values k keys (map g vals) = map g (group_values k keys vals)"
proof -
  have "zip keys (map g vals) = map (\<lambda>(k', v). (k', g v)) (zip keys vals)"
    by (simp add: zip_map2)
  then show ?thesis
    by (simp add: group_values_def filter_map comp_def case_prod_unfold)
qed

lemma group_values_nonempty:
  "length keys = length vals \<Longrightarrow> k \<in> set keys \<Longrightarrow> group_values k keys vals \<noteq> []"
proof (induction keys vals rule: list_induct2)
  case Nil
  then show ?case by simp
next
  case (Cons x xs y ys)
  then show ?case by (auto simp: group_values_def)
qed

lemma group_values_key: "group_values k keys vals \<noteq> [] \<Longrightarrow> k \<in> set keys"
proof -
  assume "group_values k keys vals \<noteq> []"
  then obtain a b where "(a, b) \<in> set (zip keys vals)" "a = k"
    by (auto simp: group_values_def filter_empty_conv)
  then show ?thesis by (auto dest: set_zip_leftD)
qed

lemma numbers_Some: "numbers (map (\<lambda>x. Some (f x)) xs) = map f xs"
  by (induction xs) (simp_all add: numbers_def)

text \<open>The rows of a task, written as a comprehension over the rows of the frame.\<close>

lemma group_values_rows:
  "group_values k keys vals = [v. (k', v) \<leftarrow> zip keys vals, k' = k]"
proof -
  have "map snd (filter (\<lambda>(k', v). k' = k) ps) = [v. (k', v) \<leftarrow> ps, k' = k]" for ps
    by (induction ps) auto
  then show ?thesis by (simp add: group_values_def)
qed

lemma group_values_mapped_rows:
  "map f (group_values k keys vals) = [f v. (k', v) \<leftarrow> zip keys vals, k' = k]"
proof -
  have "map f (map snd (filter (\<lambda>(k', v). k' = k) ps)) = [f v. (k', v) \<leftarrow> ps, k' = k]"
    for ps
    by (induction ps) auto
  then show ?thesis by (simp add: group_values_def)
qed

lemma group_values_numbers_rows:
  "numbers (map f (group_values k keys vals))
     = [v. (k', d) \<leftarrow> zip keys vals, k' = k, Some v \<leftarrow> [f d]]"
proof -
  have "numbers (map f (map snd (filter (\<lambda>(k', v). k' = k) ps)))
      = [v. (k', d) \<leftarrow> ps, k' = k, Some v \<leftarrow> [f d]]"
    for ps
    by (induction ps) (auto simp: numbers_def split: option.splits)
  then show ?thesis by (simp add: group_values_def)
qed

subsection \<open>Every descending arrangement is the result for some ranking\<close>

lemma sorted_wrt_unique:
  assumes "sorted_wrt R xs" "sorted_wrt R ys" "distinct xs" "distinct ys" "set xs = set ys"
      and "\<And>a b. a \<in> set xs \<Longrightarrow> b \<in> set xs \<Longrightarrow> R a b \<Longrightarrow> R b a \<Longrightarrow> a = b"
  shows "xs = ys"
  using assms
proof (induction xs arbitrary: ys)
  case Nil
  then show ?case by simp
next
  case (Cons x xs)
  from Cons.prems(5) obtain y ys' where ys: "ys = y # ys'" by (cases ys) auto
  have xy: "x = y"
  proof (rule ccontr)
    assume ne: "x \<noteq> y"
    with Cons.prems(5) ys have "x \<in> set ys'" "y \<in> set xs" by auto
    with Cons.prems(1,2) ys have "R y x" "R x y" by auto
    with Cons.prems(6) [of x y] Cons.prems(5) ys have "x = y" by auto
    with ne show False ..
  qed
  with Cons.prems(3,4,5) ys have "set xs = set ys'" by auto
  with Cons.IH [of ys'] Cons.prems ys xy show ?case by auto
qed

lemma position_of_inj:
  "k \<in> fst ` set s \<Longrightarrow> k' \<in> fst ` set s \<Longrightarrow> position_of s k = position_of s k' \<Longrightarrow> k = k'"
  by (induction s) (auto split: if_splits)

lemma position_of_sorted:
  "distinct (map fst s) \<Longrightarrow>
     sorted_wrt (\<lambda>a b. position_of s (fst a) \<le> position_of s (fst b)) s"
proof (induction s)
  case Nil
  then show ?case by simp
next
  case (Cons p ps)
  then have ih: "sorted_wrt (\<lambda>a b. position_of ps (fst a) \<le> position_of ps (fst b)) ps" by simp
  have "sorted_wrt (\<lambda>a b. position_of (p # ps) (fst a) \<le> position_of (p # ps) (fst b)) ps"
  proof (rule sorted_wrt_mono_rel [OF _ ih])
    fix a b assume "a \<in> set ps" "b \<in> set ps"
      and "position_of ps (fst a) \<le> position_of ps (fst b)"
    with Cons.prems show "position_of (p # ps) (fst a) \<le> position_of (p # ps) (fst b)"
      by auto
  qed
  then show ?case by simp
qed

lemma sorted_wrt_both:
  "sorted_wrt P xs \<Longrightarrow> sorted_wrt Q xs \<Longrightarrow> sorted_wrt (\<lambda>a b. P a b \<and> Q a b) xs"
  by (induction xs) auto

lemma value_ge_rank:
  "value_ge (\<lambda>k. 0) a b \<and> tie (fst a) \<le> tie (fst b) \<Longrightarrow> value_ge tie a b"
  by (auto simp: value_ge_def split: option.splits)

lemma value_ge_antisym:
  "value_ge tie a b \<Longrightarrow> value_ge tie b a \<Longrightarrow> snd a = snd b \<and> tie (fst a) = tie (fst b)"
  by (auto simp: value_ge_def split: option.splits)

text \<open>
  The argument \<open>tie\<close> loses no behaviour of the sort: whichever descending arrangement
  of a series with distinct labels the library returns, it is the result of the model for
  the ranking that reads the positions off that arrangement.
\<close>

lemma sort_values_any_arrangement:
  assumes "distinct (map fst s)" "distinct (map fst res)" "set res = set s"
      and "sorted_wrt (value_ge (\<lambda>k. 0)) res"
  shows "sort_values_descending (position_of res) s = res"
proof -
  let ?tie = "position_of res"
  have "sorted_wrt (\<lambda>a b. value_ge (\<lambda>k. 0) a b \<and> ?tie (fst a) \<le> ?tie (fst b)) res"
    using assms(4) position_of_sorted [OF assms(2)] by (rule sorted_wrt_both)
  then have sorted_res: "sorted_wrt (value_ge ?tie) res"
    by (rule sorted_wrt_mono_rel [rotated]) (simp add: value_ge_rank)
  have d_res: "distinct res" using assms(2) by (rule distinct_map [THEN iffD1, THEN conjunct1])
  have d_s: "distinct s" using assms(1) by (rule distinct_map [THEN iffD1, THEN conjunct1])
  have d_sorted: "distinct (sort_values_descending ?tie s)"
    using d_s distinct_map_sort_by [of id "value_ge ?tie" s]
    by (simp add: sort_values_descending_def)
  have set_sorted: "set (sort_values_descending ?tie s) = set res"
    by (simp add: sort_values_descending_def set_sort_by assms(3))
  have antisym: "a = b" if "a \<in> set (sort_values_descending ?tie s)"
      "b \<in> set (sort_values_descending ?tie s)" "value_ge ?tie a b" "value_ge ?tie b a" for a b
  proof -
    from that(1,2) set_sorted have ab: "a \<in> set res" "b \<in> set res" by simp_all
    from value_ge_antisym [OF that(3,4)]
    have v: "snd a = snd b" and t: "?tie (fst a) = ?tie (fst b)" by simp_all
    from ab have "fst a \<in> fst ` set res" "fst b \<in> fst ` set res" by simp_all
    from position_of_inj [OF this t] have "fst a = fst b" .
    with v show "a = b" by (simp add: prod_eq_iff)
  qed
  from sorted_wrt_unique [OF sorted_sort_values sorted_res d_sorted d_res set_sorted antisym]
  show ?thesis .
qed

subsection \<open>Success rate\<close>

lemma success_score_spec: "fillna 0 (map_success c) = Some (spec_success_score c)"
  by (cases c) (simp_all add: fillna_def map_success_def success_map_def spec_success_score_def)

lemma success_by_task_eq:
  assumes "map_of df ''task_name'' = Some names" "map_of df ''success'' = Some outcomes"
  shows "success_by_task tie df
           = Inr (sort_values_descending tie
                    (map (\<lambda>k. (k, nanmean (map (\<lambda>c. Some (spec_success_score c))
                                              (group_values k names outcomes))))
                       (group_keys names)))"
  using assms
  by (simp add: success_by_task_def df_column_def groupby_mean_def group_values_map
        success_score_spec)

lemma mean_task_scores:
  "mean (map spec_success_score (group_values k names outcomes))
     = sum_list [spec_success_score c. (k', c) \<leftarrow> zip names outcomes, k' = k]
         / of_nat (length [c. (k', c) \<leftarrow> zip names outcomes, k' = k])"
proof -
  have a: "map spec_success_score (group_values k names outcomes)
      = [spec_success_score c. (k', c) \<leftarrow> zip names outcomes, k' = k]"
    by (rule group_values_mapped_rows)
  have b: "group_values k names outcomes = [c. (k', c) \<leftarrow> zip names outcomes, k' = k]"
    by (rule group_values_rows)
  have "mean (map spec_success_score (group_values k names outcomes))
      = sum_list (map spec_success_score (group_values k names outcomes))
          / of_nat (length (group_values k names outcomes))"
    by (simp add: mean_def)
  then show ?thesis by (subst (asm) a, subst (asm) b)
qed

lemma success_entries:
  assumes "length names = length outcomes"
  shows "(k, m) \<in> set (map (\<lambda>k. (k, nanmean (map (\<lambda>c. Some (spec_success_score c))
                                              (group_values k names outcomes))))
                       (group_keys names))
         \<longleftrightarrow> k \<in> set names \<and> k \<noteq> NaN
              \<and> m = Some (sum_list [spec_success_score c. (k', c) \<leftarrow> zip names outcomes, k' = k]
                           / of_nat (length [c. (k', c) \<leftarrow> zip names outcomes, k' = k]))"
proof -
  have "k \<in> set names \<Longrightarrow>
      nanmean (map (\<lambda>c. Some (spec_success_score c)) (group_values k names outcomes))
        = Some (mean (map spec_success_score (group_values k names outcomes)))"
    using group_values_nonempty [OF assms, of k]
    by (simp add: nanmean_def numbers_Some)
  then show ?thesis unfolding mean_task_scores by (auto simp: set_group_keys)
qed

lemma sorted_values_Some:
  "sorted_wrt (value_ge tie) s \<Longrightarrow> \<forall>p \<in> set s. snd p \<noteq> None \<Longrightarrow>
     \<exists>ms. map snd s = map Some ms \<and> sorted_wrt (\<lambda>x y. y \<le> x) ms"
proof (induction s)
  case Nil
  then show ?case by simp
next
  case (Cons p s)
  then obtain ms where ms: "map snd s = map Some ms" "sorted_wrt (\<lambda>x y. y \<le> x) ms" by auto
  from Cons.prems(2) obtain v where v: "snd p = Some v" by auto
  have "\<forall>y \<in> set ms. y \<le> v"
  proof
    fix y assume "y \<in> set ms"
    then have "Some y \<in> set (map snd s)" using ms(1) by simp
    then obtain q where q: "q \<in> set s" "snd q = Some y" by auto
    with Cons.prems(1) have "value_ge tie p q" by simp
    with v q(2) show "y \<le> v" by (auto simp: value_ge_def)
  qed
  with ms v have "map snd (p # s) = map Some (v # ms) \<and> sorted_wrt (\<lambda>x y. y \<le> x) (v # ms)"
    by simp
  then show ?case by blast
qed

lemma success_example_sorted:
  "\<exists>res. success_by_task tie success_example = Inr res
      \<and> set res = {(Str ''T1'', Some (1 / 2)), (Str ''T2'', Some (1 / 2))} \<and> length res = 2"
proof -
  have g: "groupby_mean [Str ''T1'', Str ''T1'', Str ''T2'']
             (map (\<lambda>c. fillna 0 (map_success c)) [Str ''Success'', Str ''Fail'', Str ''Partial''])
           = [(Str ''T1'', Some (1 / 2)), (Str ''T2'', Some (1 / 2))]"
    by code_simp
  have "success_by_task tie success_example
      = Inr (sort_values_descending tie [(Str ''T1'', Some (1 / 2)), (Str ''T2'', Some (1 / 2))])"
    unfolding g [symmetric]
    by (simp add: success_by_task_def success_example_def df_column_def Let_def)
  then show ?thesis
    by (simp add: sort_values_descending_def sort_by_def insert_commute)
qed

lemma success_example_2_sorted:
  "success_by_task tie success_example_2
     = Inr [(Str ''T2'', Some 1), (Str ''T3'', Some (1 / 4)), (Str ''T1'', Some 0)]"
proof -
  have g: "groupby_mean [Str ''T1'', Str ''T2'', Str ''T3'', Str ''T3'', Str ''T2'', Str ''T1'']
             (map (\<lambda>c. fillna 0 (map_success c))
                [Str ''Fail'', Str ''Success'', Str ''Partial'', Str ''Abandoned'', Str ''Success'', NaN])
           = [(Str ''T1'', Some 0), (Str ''T2'', Some 1), (Str ''T3'', Some (1 / 4))]"
    by code_simp
  have "success_by_task tie success_example_2
      = Inr (sort_values_descending tie
               [(Str ''T1'', Some 0), (Str ''T2'', Some 1), (Str ''T3'', Some (1 / 4))])"
    unfolding g [symmetric]
    by (simp add: success_by_task_def success_example_2_def df_column_def Let_def)
  then show ?thesis
    by (simp add: sort_values_descending_def sort_by_def value_ge_def)
qed

text \<open>
  C3. For a task frame with the columns \<open>task_name\<close> and \<open>success\<close>, the success
  aggregate has exactly one entry for each task name (missing names apart). Its value is
  the sum of the scores of the rows of that task, divided by the number of these rows,
  where the score is Success 1, Partial 1/2, Fail 0, Abandoned 0 and 0 for anything else.
  The entries are in descending order of their values, however the sort arranges equal
  values. For the rows (T1, Success), (T1, Fail), (T2, Partial) the entries are T1 and T2,
  both with 1/2; for the six rows of the second example they are T2 with 1, T3 with 1/4
  and T1 with 0, in this order.
\<close>

theorem success_by_task_mean:
  "(map_of df ''task_name'' = Some names \<and> map_of df ''success'' = Some outcomes
      \<and> length names = length outcomes \<longrightarrow>
      (\<exists>res. success_by_task tie df = Inr res
         \<and> distinct (map fst res)
         \<and> (\<forall>k m. (k, m) \<in> set res \<longleftrightarrow>
               k \<in> set names \<and> k \<noteq> NaN
               \<and> m = Some (sum_list [spec_success_score c. (k', c) \<leftarrow> zip names outcomes, k' = k]
                            / of_nat (length [c. (k', c) \<leftarrow> zip names outcomes, k' = k])))
         \<and> (\<exists>ms. map snd res = map Some ms \<and> sorted_wrt (\<lambda>x y. y \<le> x) ms)))
   \<and> (\<exists>res. success_by_task tie success_example = Inr res
         \<and> set res = {(Str ''T1'', Some (1 / 2)), (Str ''T2'', Some (1 / 2))} \<and> length res = 2)
   \<and> success_by_task tie success_example_2
        = Inr [(Str ''T2'', Some 1), (Str ''T3'', Some (1 / 4)), (Str ''T1'', Some 0)]"
proof -
  have general: "map_of df ''task_name'' = Some names \<and> map_of df ''success'' = Some outcomes
      \<and> length names = length outcomes \<longrightarrow>
      (\<exists>res. success_by_task tie df = Inr res
         \<and> distinct (map fst res)
         \<and> (\<forall>k m. (k, m) \<in> set res \<longleftrightarrow>
               k \<in> set names \<and> k \<noteq> NaN
               \<and> m = Some (sum_list [spec_success_score c. (k', c) \<leftarrow> zip names outcomes, k' = k]
                            / of_nat (length [c. (k', c) \<leftarrow> zip names outcomes, k' = k])))
         \<and> (\<exists>ms. map snd res = map Some ms \<and> sorted_wrt (\<lambda>x y. y \<le> x) ms))"
  proof
    assume h: "map_of df ''task_name'' = Some names \<and> map_of df ''success'' = Some outcomes
      \<and> length names = length outcomes"
    let ?means = "map (\<lambda>k. (k, nanmean (map (\<lambda>c. Some (spec_success_score c))
                                              (group_values k names outcomes))))
                       (group_keys names)"
    let ?res = "sort_values_descending tie ?means"
    from h have len: "length names = length outcomes" by simp
    have eq: "success_by_task tie df = Inr ?res"
      using h by (simp add: success_by_task_eq)
    have set_res: "set ?res = set ?means"
      by (simp add: sort_values_descending_def set_sort_by)
    have "map fst ?means = group_keys names" by (simp add: comp_def)
    then have dist: "distinct (map fst ?res)"
      by (simp add: sort_values_descending_def distinct_map_sort_by distinct_group_keys)
    have entries: "\<forall>k m. (k, m) \<in> set ?res \<longleftrightarrow>
               k \<in> set names \<and> k \<noteq> NaN
               \<and> m = Some (sum_list [spec_success_score c. (k', c) \<leftarrow> zip names outcomes, k' = k]
                            / of_nat (length [c. (k', c) \<leftarrow> zip names outcomes, k' = k]))"
      unfolding set_res using success_entries [OF len] by blast
    have "\<forall>p \<in> set ?res. snd p \<noteq> None"
    proof
      fix p assume "p \<in> set ?res"
      with entries show "snd p \<noteq> None" by (cases p) auto
    qed
    with sorted_sort_values [of tie ?means]
    have "\<exists>ms. map snd ?res = map Some ms \<and> sorted_wrt (\<lambda>x y. y \<le> x) ms"
      by (rule sorted_values_Some)
    with eq dist entries
    show "\<exists>res. success_by_task tie df = Inr res
         \<and> distinct (map fst res)
         \<and> (\<forall>k m. (k, m) \<in> set res \<longleftrightarrow>
               k \<in> set names \<and> k \<noteq> NaN
               \<and> m = Some (sum_list [spec_success_score c. (k', c) \<leftarrow> zip names outcomes, k' = k]
                            / of_nat (length [c. (k', c) \<leftarrow> zip names outcomes, k' = k])))
         \<and> (\<exists>ms. map snd res = map Some ms \<and> sorted_wrt (\<lambda>x y. y \<le> x) ms)"
      by blast
  qed
  from general success_example_sorted [of tie] success_example_2_sorted [of tie]
  show ?thesis by blast
qed

theorem success_by_task_mean_witness:
  "\<exists>res. success_by_task (\<lambda>k. 0) success_example_2 = Inr res
      \<and> (Str ''T1'', Some 0) \<in> set res \<and> (Str ''T2'', Some 1) \<in> set res
      \<and> (Str ''T3'', Some (1 / 4)) \<in> set res \<and> length res = 3"
proof -
  let ?names = "[Str ''T1'', Str ''T2'', Str ''T3'', Str ''T3'', Str ''T2'', Str ''T1'']"
  let ?outcomes = "[Str ''Fail'', Str ''Success'', Str ''Partial'', Str ''Abandoned'',
                     Str ''Success'', NaN]"
  have cols: "map_of success_example_2 ''task_name'' = Some ?names
      \<and> map_of success_example_2 ''success'' = Some ?outcomes
      \<and> length ?names = length ?outcomes"
    by (simp add: success_example_2_def)
  from success_by_task_mean [of success_example_2 ?names ?outcomes "\<lambda>k. 0"] cols
  obtain res where res: "success_by_task (\<lambda>k. 0) success_example_2 = Inr res"
    "distinct (map fst res)"
    "\<forall>k m. (k, m) \<in> set res \<longleftrightarrow>
        k \<in> set ?names \<and> k \<noteq> NaN
        \<and> m = Some (sum_list [spec_success_score c. (k', c) \<leftarrow> zip ?names ?outcomes, k' = k]
                     / of_nat (length [c. (k', c) \<leftarrow> zip ?names ?outcomes, k' = k]))"
    by blast
  from res(3) have a: "(Str ''T1'', Some 0) \<in> set res"
    by (simp add: spec_success_score_def)
  from res(3) have b: "(Str ''T2'', Some 1) \<in> set res"
    by (simp add: spec_success_score_def)
  from res(3) have c: "(Str ''T3'', Some (1 / 4)) \<in> set res"
    by (simp add: spec_success_score_def)
  from success_by_task_mean [of success_example_2 ?names ?outcomes "\<lambda>k. 0"] res(1)
  have "length res = 3" by auto
  with res(1) a b c show ?thesis by blast
qed

subsection \<open>Average duration\<close>

lemma map_of_df_filter:
  "map_of (df_filter keep df) name = map_option (filter_mask keep) (map_of df name)"
  by (induction df) (auto simp: df_filter_def)

lemma all_dropWhile: "(\<forall>x \<in> set (dropWhile P s). P x) \<longleftrightarrow> (\<forall>x \<in> set s. P x)"
  by (induction s) auto

lemma strip_blank: "strip s = [] \<longleftrightarrow> spec_blank s"
proof -
  have "strip s = [] \<longleftrightarrow> (\<forall>x \<in> set (dropWhile is_space s). is_space x)"
    by (simp add: strip_def dropWhile_eq_Nil_conv)
  also have "\<dots> \<longleftrightarrow> (\<forall>x \<in> set s. is_space x)"
    by (rule all_dropWhile)
  finally show ?thesis by (simp add: spec_blank_def is_space_def list_all_iff)
qed

lemma spec_duration_number_keep:
  "spec_duration_number num d = (if keep_duration d then to_numeric num d else None)"
  by (cases d) (simp_all add: spec_duration_number_def keep_duration_def to_numeric_def strip_blank)

lemma kept_group_numbers:
  assumes "length names = length durs"
  shows "numbers (group_values k (filter_mask (map keep_duration durs) names)
                (map (to_numeric num) (filter_mask (map keep_duration durs) durs)))
       = [v. (k', d) \<leftarrow> zip names durs, k' = k, Some v \<leftarrow> [spec_duration_number num d]]"
proof -
  from assms have "numbers (group_values k (filter_mask (map keep_duration durs) names)
                (map (to_numeric num) (filter_mask (map keep_duration durs) durs)))
       = numbers (map (spec_duration_number num) (group_values k names durs))"
  proof (induction names durs rule: list_induct2)
    case Nil
    then show ?case by (simp add: group_values_def filter_mask_def numbers_def)
  next
    case (Cons n ns d ds)
    then show ?case
      by (simp add: group_values_def filter_mask_def numbers_def spec_duration_number_keep)
  qed
  then show ?thesis by (simp only: group_values_numbers_rows)
qed

lemma avg_dur_eq:
  assumes "map_of df ''task_name'' = Some names" "map_of df ''duration_seconds'' = Some durs"
  shows "avg_dur num df
           = Inr (dropna (groupby_mean (filter_mask (map keep_duration durs) names)
                    (map (to_numeric num) (filter_mask (map keep_duration durs) durs))))"
  using assms by (simp add: avg_dur_def df_column_def map_of_df_filter Let_def)

lemma dropna_entries:
  "(k, m) \<in> set (dropna (groupby_mean keys vals))
     \<longleftrightarrow> k \<in> set keys \<and> k \<noteq> NaN \<and> numbers (group_values k keys vals) \<noteq> []
          \<and> m = Some (sum_list (numbers (group_values k keys vals))
                       / of_nat (length (numbers (group_values k keys vals))))"
  by (auto simp: dropna_def groupby_mean_def set_group_keys nanmean_def mean_def split: if_splits)

lemma distinct_dropna: "distinct (map fst (dropna (groupby_mean keys vals)))"
proof -
  have "map fst (dropna (groupby_mean keys vals))
      = filter (\<lambda>k. nanmean (group_values k keys vals) \<noteq> None) (group_keys keys)"
    by (simp add: dropna_def groupby_mean_def filter_map comp_def)
  then show ?thesis by (simp add: distinct_group_keys)
qed

lemma numbers_nonempty_values: "numbers xs \<noteq> [] \<Longrightarrow> xs \<noteq> []"
  by (auto simp: numbers_def)

lemma set_filter_mask: "set (filter_mask keep col) \<subseteq> set col"
  by (auto simp: filter_mask_def dest: set_zip_rightD)

text \<open>
  C2. For a task frame with the columns \<open>task_name\<close> and \<open>duration_seconds\<close>, the
  duration aggregate has an entry for a task exactly when at least one of its rows has a
  duration that parses to a number, and the value is the sum of those numbers divided by
  their count: an empty or blank marker, a missing value and a string that is not a number
  contribute nothing, a measured zero counts as a number, and a task without any number
  has no entry. For the rows (T1, 2.0), (T1, empty), (T1, 4.0) the mean of T1 is 3; in the
  second example T1 has 3, T2 has (10 + 0) / 2 = 5 and T3 has no entry.
\<close>

theorem avg_dur_mean:
  "(map_of df ''task_name'' = Some names \<and> map_of df ''duration_seconds'' = Some durs
      \<and> length names = length durs \<longrightarrow>
      (\<exists>res. avg_dur num df = Inr res
         \<and> distinct (map fst res)
         \<and> (\<forall>k m. (k, m) \<in> set res \<longleftrightarrow>
               (let ds = [v. (k', d) \<leftarrow> zip names durs, k' = k, Some v \<leftarrow> [spec_duration_number num d]]
                in k \<in> set names \<and> k \<noteq> NaN \<and> ds \<noteq> []
                   \<and> m = Some (sum_list ds / of_nat (length ds))))))
   \<and> avg_dur decimal_literal duration_example = Inr [(Str ''T1'', Some 3)]
   \<and> avg_dur decimal_literal duration_example_2 = Inr [(Str ''T1'', Some 3), (Str ''T2'', Some 5)]"
proof -
  have general: "map_of df ''task_name'' = Some names \<and> map_of df ''duration_seconds'' = Some durs
      \<and> length names = length durs \<longrightarrow>
      (\<exists>res. avg_dur num df = Inr res
         \<and> distinct (map fst res)
         \<and> (\<forall>k m. (k, m) \<in> set res \<longleftrightarrow>
               (let ds = [v. (k', d) \<leftarrow> zip names durs, k' = k, Some v \<leftarrow> [spec_duration_number num d]]
                in k \<in> set names \<and> k \<noteq> NaN \<and> ds \<noteq> []
                   \<and> m = Some (sum_list ds / of_nat (length ds)))))"
  proof
    assume h: "map_of df ''task_name'' = Some names \<and> map_of df ''duration_seconds'' = Some durs
      \<and> length names = length durs"
    let ?names = "filter_mask (map keep_duration durs) names"
    let ?nums = "map (to_numeric num) (filter_mask (map keep_duration durs) durs)"
    let ?res = "dropna (groupby_mean ?names ?nums)"
    let ?ds = "\<lambda>k. [v. (k', d) \<leftarrow> zip names durs, k' = k, Some v \<leftarrow> [spec_duration_number num d]]"
    from h have len: "length names = length durs" by simp
    have eq: "avg_dur num df = Inr ?res" using h by (simp add: avg_dur_eq)
    have nums: "\<And>k. numbers (group_values k ?names ?nums) = ?ds k"
      using len by (rule kept_group_numbers)
    have key: "\<And>k. ?ds k \<noteq> [] \<Longrightarrow> k \<in> set ?names \<and> k \<in> set names"
    proof -
      fix k assume "?ds k \<noteq> []"
      then have "numbers (group_values k ?names ?nums) \<noteq> []" unfolding nums .
      then have "group_values k ?names ?nums \<noteq> []" by (rule numbers_nonempty_values)
      then have "k \<in> set ?names" by (rule group_values_key)
      with set_filter_mask [of "map keep_duration durs" names]
      show "k \<in> set ?names \<and> k \<in> set names" by auto
    qed
    have entries: "\<forall>k m. (k, m) \<in> set ?res \<longleftrightarrow>
               k \<in> set names \<and> k \<noteq> NaN \<and> ?ds k \<noteq> []
               \<and> m = Some (sum_list (?ds k) / of_nat (length (?ds k)))"
    proof (intro allI)
      fix k m
      have "(k, m) \<in> set ?res \<longleftrightarrow> k \<in> set ?names \<and> k \<noteq> NaN \<and> ?ds k \<noteq> []
               \<and> m = Some (sum_list (?ds k) / of_nat (length (?ds k)))"
        unfolding dropna_entries nums ..
      with key [of k] set_filter_mask [of "map keep_duration durs" names]
      show "(k, m) \<in> set ?res \<longleftrightarrow>
               k \<in> set names \<and> k \<noteq> NaN \<and> ?ds k \<noteq> []
               \<and> m = Some (sum_list (?ds k) / of_nat (length (?ds k)))"
        by blast
    qed
    from eq distinct_dropna [of ?names ?nums] entries
    show "\<exists>res. avg_dur num df = Inr res
         \<and> distinct (map fst res)
         \<and> (\<forall>k m. (k, m) \<in> set res \<longleftrightarrow>
               (let ds = [v. (k', d) \<leftarrow> zip names durs, k' = k, Some v \<leftarrow> [spec_duration_number num d]]
                in k \<in> set names \<and> k \<noteq> NaN \<and> ds \<noteq> []
                   \<and> m = Some (sum_list ds / of_nat (length ds))))"
      unfolding Let_def by blast
  qed
  have example: "avg_dur decimal_literal duration_example = Inr [(Str ''T1'', Some 3)]"
    by code_simp
  have example2: "avg_dur decimal_literal duration_example_2
      = Inr [(Str ''T1'', Some 3), (Str ''T2'', Some 5)]"
    by code_simp
  from general example example2 show ?thesis by blast
qed

theorem avg_dur_mean_witness:
  "\<exists>res. avg_dur decimal_literal duration_example_2 = Inr res
      \<and> (Str ''T1'', Some 3) \<in> set res \<and> (Str ''T2'', Some 5) \<in> set res
      \<and> Str ''T3'' \<notin> fst ` set res"
proof -
  let ?names = "[Str ''T1'', Str ''T2'', Str ''T1'', Str ''T3'', Str ''T1'', Str ''T2'', Str ''T2'']"
  let ?durs = "[Str ''2.0'', Str ''10'', Str [], Str ''  '', Str ''4.0'', Str ''abc'', Num 0]"
  have cols: "map_of duration_example_2 ''task_name'' = Some ?names
      \<and> map_of duration_example_2 ''duration_seconds'' = Some ?durs
      \<and> length ?names = length ?durs"
    by (simp add: duration_example_2_def)
  have t1: "[v. (k', d) \<leftarrow> zip ?names ?durs, k' = Str ''T1'',
               Some v \<leftarrow> [spec_duration_number decimal_literal d]] = [2, 4]"
    by code_simp
  have t2: "[v. (k', d) \<leftarrow> zip ?names ?durs, k' = Str ''T2'',
               Some v \<leftarrow> [spec_duration_number decimal_literal d]] = [10, 0]"
    by code_simp
  have t3: "[v. (k', d) \<leftarrow> zip ?names ?durs, k' = Str ''T3'',
               Some v \<leftarrow> [spec_duration_number decimal_literal d]] = []"
    by code_simp
  from avg_dur_mean [of duration_example_2 ?names ?durs decimal_literal] cols
  obtain res where res: "avg_dur decimal_literal duration_example_2 = Inr res"
    "\<forall>k m. (k, m) \<in> set res \<longleftrightarrow>
        (let ds = [v. (k', d) \<leftarrow> zip ?names ?durs, k' = k,
                     Some v \<leftarrow> [spec_duration_number decimal_literal d]]
         in k \<in> set ?names \<and> k \<noteq> NaN \<and> ds \<noteq> []
            \<and> m = Some (sum_list ds / of_nat (length ds)))"
    by blast
  have a: "(Str ''T1'', Some 3) \<in> set res"
    unfolding res(2) [rule_format] Let_def t1 by simp
  have b: "(Str ''T2'', Some 5) \<in> set res"
    unfolding res(2) [rule_format] Let_def t2 by simp
  have c: "Str ''T3'' \<notin> fst ` set res"
  proof
    assume "Str ''T3'' \<in> fst ` set res"
    then obtain m where "(Str ''T3'', m) \<in> set res" by force
    then show False unfolding res(2) [rule_format] Let_def t3 by simp
  qed
  from res(1) a b c show ?thesis by blast
qed


subsection \<open>The task section of the report\<close>

lemma report_tasks_charts:
  "\<not> df_empty df \<Longrightarrow> success_by_task tie df = Inr s \<Longrightarrow> avg_dur num df = Inr a \<Longrightarrow>
   ''duration_seconds'' \<in> set (map fst df) \<Longrightarrow>
     report_tasks tie num df
       = Inr [BarChart s,
              if a \<noteq> [] then BarChart a else Text (Info ''No duration data to aggregate yet.'')]"
  by (simp add: report_tasks_def)

end
